theory Spec2Isabelle
  imports Complex_Main
begin

section \<open>NicoTracker: storage, estimation and aggregation\<close>

text \<open>
  A shallow embedding of the storage utilities (\<^verbatim>\<open>loadLogs\<close>, \<^verbatim>\<open>addLog\<close>,
  \<^verbatim>\<open>updateLog\<close>, \<^verbatim>\<open>importData\<close>, \<^verbatim>\<open>calculateStreak\<close>,
  \<^verbatim>\<open>getTimeOfDay\<close>, \<^verbatim>\<open>calculateEstimatedMg\<close>), of the analytics
  (\<^verbatim>\<open>computeSweetSpotMatrix\<close>, \<^verbatim>\<open>getDailyStats\<close>) and of the two places of
  \<^verbatim>\<open>app.js\<close> that create records (\<^verbatim>\<open>confirmWizard\<close>,
  \<^verbatim>\<open>submitCognitiveCheckIn\<close>).

  Conventions of the embedding.
  \<^item> A JavaScript number is a \<open>real\<close>: comparisons are exact, sums and quotients are
    the mathematical ones (rounding, \<open>NaN\<close> and the infinities are not represented).
  \<^item> A nullable value is an \<open>option\<close>; \<open>None\<close> stands for both \<open>null\<close> and
    \<open>undefined\<close>, which the code never tells apart.
  \<^item> An instant (a \<open>Date\<close>, or the ISO-8601 string \<open>toISOString()\<close> makes of it) is
    its time value: milliseconds since the epoch, UTC, an \<open>int\<close>.
  \<^item> A calendar date string \<open>YYYY-MM-DD\<close> is the number of the day it names, counted
    from 1970-01-01; \<open>d.toISOString().split('T')[0]\<close> is then \<open>d div msPerDay\<close> and
    \<open>new Date(s)\<close> of such a string is midnight UTC of that day.
\<close>

subsection \<open>Log records\<close>

text \<open>
  The object literal a caller hands to \<^verbatim>\<open>addLog\<close> (\<open>logData\<close>), and the stored
  record, which adds \<open>id\<close> and \<open>timestamp\<close>. The fields \<open>id\<close> and \<open>notes\<close> are named
  \<open>log_id\<close> and \<open>log_notes\<close> here.
\<close>

record logData =
  date :: int
  timeOfDay :: "string option"
  source :: "string option"
  unitType :: string
  amount :: "real option"
  estimatedMg :: "real option"
  reason :: "string option"
  healthEffects :: "string list"
  focusLevel :: "real option"
  anxietyLevel :: "real option"
  clearThinking :: "bool option"
  log_notes :: "string option"

record log = logData +
  log_id :: string
  timestamp :: int

text \<open>Truthiness of a nullable number and of a nullable string, as \<open>!x\<close> tests it.\<close>

definition truthy_num :: "real option \<Rightarrow> bool" where
  "truthy_num v = (case v of None \<Rightarrow> False | Some x \<Rightarrow> x \<noteq> 0)"

definition truthy_str :: "string option \<Rightarrow> bool" where
  "truthy_str v = (case v of None \<Rightarrow> False | Some s \<Rightarrow> s \<noteq> [])"

subsection \<open>Estimation\<close>

text \<open>
  \<^verbatim>\<open>calculateEstimatedMg(source, quantity, strength)\<close>. The guards
  \<open>!quantity || quantity <= 0\<close> and \<open>!strength || strength <= 0\<close> come first, then
  the \<open>switch\<close> on the source with its \<open>default\<close>.
\<close>

definition calculateEstimatedMg :: "string \<Rightarrow> real option \<Rightarrow> real option \<Rightarrow> real" where
  "calculateEstimatedMg src quantity strength =
     (case quantity of
        None \<Rightarrow> 0
      | Some q \<Rightarrow>
          if q = 0 \<or> q \<le> 0 then 0
          else (case strength of
             None \<Rightarrow> 0
           | Some s \<Rightarrow>
               if s = 0 \<or> s \<le> 0 then 0
               else if src = ''Vape'' then (s / 200) * q
               else if src = ''Cigarettes'' then s * q
               else if src = ''Snus'' then s * q
               else 0))"

subsection \<open>Dates and the time zone\<close>

text \<open>
  The \<open>Date\<close> methods the code calls, after ECMA-262 (section "Date Objects"). The host's
  time zone is a parameter \<open>tza\<close>, the standard's \<open>LocalTZA(t, isUTC)\<close>: the offset of
  local time in milliseconds, at the UTC time value \<open>t\<close> when \<open>isUTC\<close> holds and at
  the local time value \<open>t\<close> otherwise.
\<close>

type_synonym zone = "int \<Rightarrow> bool \<Rightarrow> int"

definition msPerHour :: int where
  "msPerHour = 3600000"

definition msPerDay :: int where
  "msPerDay = 86400000"

definition LocalTime :: "zone \<Rightarrow> int \<Rightarrow> int" where
  "LocalTime tza t = t + tza t True"

definition UTC :: "zone \<Rightarrow> int \<Rightarrow> int" where
  "UTC tza t = t - tza t False"

text \<open>\<open>d.toISOString().split('T')[0]\<close>: the UTC calendar date of the instant.\<close>

definition isoDate :: "int \<Rightarrow> int" where
  "isoDate t = t div msPerDay"

text \<open>\<open>new Date(s)\<close> for a date-only string \<open>s\<close>: midnight UTC of that day.\<close>

definition dateOfIso :: "int \<Rightarrow> int" where
  "dateOfIso d = d * msPerDay"

text \<open>\<open>d.getHours()\<close>: the hour of the day in local time.\<close>

definition getHours :: "zone \<Rightarrow> int \<Rightarrow> int" where
  "getHours tza t = (LocalTime tza t div msPerHour) mod 24"

text \<open>
  The local calendar date of an instant (the day \<open>getFullYear\<close>, \<open>getMonth\<close> and
  \<open>getDate\<close> name together). The code never computes it; it is what a claim about
  "the date in local time" speaks of.
\<close>

definition localDate :: "zone \<Rightarrow> int \<Rightarrow> int" where
  "localDate tza t = LocalTime tza t div msPerDay"

text \<open>
  \<open>d.setDate(d.getDate() - 1)\<close>: \<open>setDate\<close> rebuilds the local time from the local
  year and month, the given day of the month and the local time within the day, one day
  earlier here, and converts it back with \<open>UTC\<close>.
\<close>

definition setDatePrev :: "zone \<Rightarrow> int \<Rightarrow> int" where
  "setDatePrev tza t = UTC tza (LocalTime tza t - msPerDay)"

text \<open>
  \<^verbatim>\<open>getTimeOfDay(date)\<close>: \<open>hourCategory\<close> is the chain of tests on
  \<open>hour\<close>, \<open>getTimeOfDay\<close> reads the hour first.
\<close>

definition hourCategory :: "int \<Rightarrow> string" where
  "hourCategory hour =
     (if hour \<ge> 5 \<and> hour < 12 then ''morning''
      else if hour \<ge> 12 \<and> hour < 17 then ''afternoon''
      else if hour \<ge> 17 \<and> hour < 22 then ''evening''
      else ''night'')"

definition getTimeOfDay :: "zone \<Rightarrow> int \<Rightarrow> string" where
  "getTimeOfDay tza d = hourCategory (getHours tza d)"

subsection \<open>Errors\<close>

text \<open>
  What the code throws: \<open>Error msg\<close> for \<open>throw new Error(msg)\<close>, \<open>TypeError\<close>
  for a property read on \<open>undefined\<close>, \<open>SyntaxError\<close> for \<open>JSON.parse\<close> on a text
  that is not JSON. A function that can throw returns \<open>error + 'a\<close>.
\<close>

datatype error = Error string | TypeError | SyntaxError

subsection \<open>Daily statistics\<close>

text \<open>
  \<open>xs.reduce((a, b) => a + b, 0)\<close> is \<open>foldl (+) 0 xs\<close>. \<open>presentLevels\<close> is
  \<open>.filter(level => level !== null && level !== undefined)\<close> on the mapped levels.
\<close>

definition presentLevels :: "real option list \<Rightarrow> real list" where
  "presentLevels vs = map the (filter (\<lambda>level. level \<noteq> None) vs)"





subsection \<open>The store\<close>

text \<open>
  \<open>localStorage\<close> with its two items. An item holds the value its JSON text parses
  to; \<open>None\<close> is an item that is absent or whose text does not parse, which
  \<^verbatim>\<open>loadLogs\<close> and \<^verbatim>\<open>loadSettings\<close> treat alike. The medium can refuse a
  \<open>setItem\<close> (quota exceeded), the one way \<^verbatim>\<open>saveLogs\<close> and
  \<^verbatim>\<open>saveSettings\<close> throw; whether it does depends on the item written, so there is
  one flag for each: \<open>rejectsWrites\<close> for the logs item and
  \<open>rejectsSettingsWrites\<close> for the settings item. A settings object is a map from its keys to values, so that
  \<open>{...a, ...b}\<close> is \<open>a ++ b\<close>. An operation returns what it returns or throws,
  paired with the store it leaves.
\<close>

datatype jsval = JNum real | JBool bool | JStr string | JNull

type_synonym settings = "string \<rightharpoonup> jsval"

record storage =
  logsItem :: "log list option"
  settingsItem :: "settings option"
  rejectsWrites :: bool
  rejectsSettingsWrites :: bool

definition DEFAULT_SETTINGS :: "real \<Rightarrow> settings" where
  "DEFAULT_SETTINGS timezoneOffset =
     Map.empty(''dailyMgLimit'' \<mapsto> JNum 40, ''dailyEventLimit'' \<mapsto> JNum 5,
       ''morningLimitEnabled'' \<mapsto> JBool False,
       ''timezoneOffsetMinutes'' \<mapsto> JNum timezoneOffset)"

definition loadLogs :: "storage \<Rightarrow> log list" where
  "loadLogs st = (case logsItem st of None \<Rightarrow> [] | Some logs \<Rightarrow> logs)"

definition saveLogs :: "log list \<Rightarrow> storage \<Rightarrow> (error + unit) \<times> storage" where
  "saveLogs logs st =
     (if rejectsWrites st then (Inl (Error ''Failed to save logs''), st)
      else (Inr (), st\<lparr>logsItem := Some logs\<rparr>))"

text \<open>
  \<^verbatim>\<open>generateId()\<close> returns \<open>Date.now()\<close> in decimal, a dash and
  \<open>Math.random().toString(36).substr(2, 9)\<close>. The clock reading and the suffix made
  of the random draw are its arguments here; \<open>decimal\<close> is the conversion of the
  number to a string.
\<close>

definition digitChar :: "nat \<Rightarrow> char" where
  "digitChar n = ''0123456789'' ! n"

function digits :: "nat \<Rightarrow> string" where
  "digits n = (if n < 10 then [digitChar n] else digits (n div 10) @ [digitChar (n mod 10)])"
  by pat_completeness auto
termination
  by (relation "measure (\<lambda>n. n)") auto

definition decimal :: "int \<Rightarrow> string" where
  "decimal n = (if n < 0 then CHR ''-'' # digits (nat (- n)) else digits (nat n))"

definition generateId :: "int \<Rightarrow> string \<Rightarrow> string" where
  "generateId now suffix = decimal now @ ''-'' @ suffix"

declare digits.simps [simp del]

text \<open>
  \<^verbatim>\<open>addLog(logData)\<close>. \<open>newId\<close> is what its call of \<open>generateId()\<close> returns
  and \<open>stamp\<close> what \<open>new Date().toISOString()\<close> reads from the clock.
\<close>

definition addLog :: "string \<Rightarrow> int \<Rightarrow> logData \<Rightarrow> storage \<Rightarrow> (error + log) \<times> storage" where
  "addLog newId stamp logData st =
     (let logs = loadLogs st;
          newLog = \<lparr>date = date logData, timeOfDay = timeOfDay logData,
            source = source logData, unitType = unitType logData, amount = amount logData,
            estimatedMg = estimatedMg logData, reason = reason logData,
            healthEffects = healthEffects logData, focusLevel = focusLevel logData,
            anxietyLevel = anxietyLevel logData, clearThinking = clearThinking logData,
            log_notes = log_notes logData, log_id = newId, timestamp = stamp\<rparr>
      in case saveLogs (logs @ [newLog]) st of
           (Inl e, st') \<Rightarrow> (Inl e, st')
         | (Inr _, st') \<Rightarrow> (Inr newLog, st'))"

text \<open>
  The \<open>updates\<close> object of \<^verbatim>\<open>updateLog\<close>: for every field of a record, \<open>None\<close>
  when the object has no such key and \<open>Some v\<close> when it has it with value \<open>v\<close> (which
  may itself be \<open>null\<close>). \<open>mergeLog l u\<close> is the spread \<open>{...l, ...u}\<close>.
\<close>

record logUpdates =
  upd_date :: "int option"
  upd_timeOfDay :: "string option option"
  upd_source :: "string option option"
  upd_unitType :: "string option"
  upd_amount :: "real option option"
  upd_estimatedMg :: "real option option"
  upd_reason :: "string option option"
  upd_healthEffects :: "string list option"
  upd_focusLevel :: "real option option"
  upd_anxietyLevel :: "real option option"
  upd_clearThinking :: "bool option option"
  upd_notes :: "string option option"
  upd_id :: "string option"
  upd_timestamp :: "int option"

definition override :: "'a option \<Rightarrow> 'a \<Rightarrow> 'a" where
  "override u v = (case u of None \<Rightarrow> v | Some w \<Rightarrow> w)"

definition mergeLog :: "log \<Rightarrow> logUpdates \<Rightarrow> log" where
  "mergeLog l u =
     \<lparr>date = override (upd_date u) (date l),
      timeOfDay = override (upd_timeOfDay u) (timeOfDay l),
      source = override (upd_source u) (source l),
      unitType = override (upd_unitType u) (unitType l),
      amount = override (upd_amount u) (amount l),
      estimatedMg = override (upd_estimatedMg u) (estimatedMg l),
      reason = override (upd_reason u) (reason l),
      healthEffects = override (upd_healthEffects u) (healthEffects l),
      focusLevel = override (upd_focusLevel u) (focusLevel l),
      anxietyLevel = override (upd_anxietyLevel u) (anxietyLevel l),
      clearThinking = override (upd_clearThinking u) (clearThinking l),
      log_notes = override (upd_notes u) (log_notes l),
      log_id = override (upd_id u) (log_id l),
      timestamp = override (upd_timestamp u) (timestamp l)\<rparr>"

text \<open>\<open>xs.findIndex(p)\<close>: the first index whose element satisfies \<open>p\<close>; \<open>None\<close> is -1.\<close>

fun findIndex :: "('a \<Rightarrow> bool) \<Rightarrow> 'a list \<Rightarrow> nat option" where
  "findIndex p [] = None"
| "findIndex p (x # xs) = (if p x then Some 0 else map_option Suc (findIndex p xs))"

definition updateLog :: "string \<Rightarrow> logUpdates \<Rightarrow> storage \<Rightarrow> (error + log) \<times> storage" where
  "updateLog logId updates st =
     (let logs = loadLogs st in
      case findIndex (\<lambda>l. log_id l = logId) logs of
        None \<Rightarrow> (Inl (Error ''Log not found''), st)
      | Some index \<Rightarrow>
          (let logs' = logs[index := mergeLog (logs ! index) updates] in
           case saveLogs logs' st of
             (Inl e, st') \<Rightarrow> (Inl e, st')
           | (Inr _, st') \<Rightarrow> (Inr (logs' ! index), st')))"

text \<open>
  \<^verbatim>\<open>getMostRecentLogToday()\<close>; \<open>now\<close> is the clock it reads. The comparator
  orders by descending time value and \<open>Array.prototype.sort\<close> is stable, as
  \<open>sort_key\<close> is.
\<close>

definition getMostRecentLogToday :: "int \<Rightarrow> storage \<Rightarrow> log option" where
  "getMostRecentLogToday now st =
     (let logs = loadLogs st;
          today = isoDate now;
          todayLogs = filter (\<lambda>l. date l = today) logs
      in case sort_key (\<lambda>l. - timestamp l) todayLogs of
           [] \<Rightarrow> None
         | recent # _ \<Rightarrow> Some recent)"

definition loadSettings :: "real \<Rightarrow> storage \<Rightarrow> settings" where
  "loadSettings timezoneOffset st =
     (case settingsItem st of
        None \<Rightarrow> DEFAULT_SETTINGS timezoneOffset
      | Some stored \<Rightarrow> DEFAULT_SETTINGS timezoneOffset ++ stored)"

definition saveSettings :: "settings \<Rightarrow> storage \<Rightarrow> (error + unit) \<times> storage" where
  "saveSettings s st =
     (if rejectsSettingsWrites st then (Inl (Error ''Failed to save settings''), st)
      else (Inr (), st\<lparr>settingsItem := Some s\<rparr>))"

subsection \<open>Import\<close>

text \<open>
  The file handed to \<^verbatim>\<open>importData\<close>: \<open>Unreadable\<close> when the reader fails,
  \<open>NotJson\<close> when \<open>JSON.parse\<close> throws, otherwise the parsed object. Its
  \<open>logs\<close> field (\<open>file_logs\<close>) is absent (or another falsy value), a value that is
  not an array, or an array of records; its \<open>settings\<close> field (\<open>file_settings\<close>) is
  \<open>None\<close> when it is absent or \<open>null\<close>. The promise resolves with the message \<open>Imported n new log entries\<close>,
  the result \<open>Inr n\<close>, or rejects with the message of the error, the result
  \<open>Inl\<close> of that error. \<open>importLogs\<close> is the handler from the merge of the logs
  on, after the validation.
\<close>

datatype logsField = LogsAbsent | LogsNotArray | LogsArray "log list"

record importedData =
  file_logs :: logsField
  file_settings :: "settings option"

datatype importFile = Unreadable | NotJson | Parsed importedData

definition importLogs :: "real \<Rightarrow> log list \<Rightarrow> settings option \<Rightarrow> storage \<Rightarrow> (error + nat) \<times> storage" where
  "importLogs timezoneOffset imported importedSettings st =
     (let existingLogs = loadLogs st;
          existingIds = set (map log_id existingLogs);
          newLogs = filter (\<lambda>l. log_id l \<notin> existingIds) imported;
          mergedLogs = existingLogs @ newLogs
      in case saveLogs mergedLogs st of
           (Inl e, st1) \<Rightarrow> (Inl e, st1)
         | (Inr _, st1) \<Rightarrow>
             (case importedSettings of
                None \<Rightarrow> (Inr (length newLogs), st1)
              | Some given \<Rightarrow>
                  (let currentSettings = loadSettings timezoneOffset st1;
                       mergedSettings = currentSettings ++ given
                   in case saveSettings mergedSettings st1 of
                        (Inl e, st2) \<Rightarrow> (Inl e, st2)
                      | (Inr _, st2) \<Rightarrow> (Inr (length newLogs), st2))))"

definition importData :: "real \<Rightarrow> importFile \<Rightarrow> storage \<Rightarrow> (error + nat) \<times> storage" where
  "importData timezoneOffset file st =
     (case file of
        Unreadable \<Rightarrow> (Inl (Error ''Failed to read file''), st)
      | NotJson \<Rightarrow> (Inl SyntaxError, st)
      | Parsed importedData \<Rightarrow>
          (case file_logs importedData of
             LogsAbsent \<Rightarrow> (Inl (Error ''Invalid file format: missing logs array''), st)
           | LogsNotArray \<Rightarrow> (Inl (Error ''Invalid file format: missing logs array''), st)
           | LogsArray imported \<Rightarrow>
               importLogs timezoneOffset imported (file_settings importedData) st))"

subsection \<open>Creating records\<close>

text \<open>
  The global \<open>wizardData\<close> of \<^verbatim>\<open>app.js\<close>; its fields carry the prefix \<open>w_\<close>.
  \<^verbatim>\<open>confirmWizard\<close> reads the clock (\<open>now\<close>) and calls \<^verbatim>\<open>addLog\<close>; what it
  does to the page afterwards is left out.
\<close>

record wizardData =
  w_source :: "string option"
  w_quantity :: "real option"
  w_strength :: real
  w_healthEffects :: "string list"
  w_reason :: "string option"
  w_otherReason :: "string option"
  w_estimatedMg :: "real option"

definition confirmWizard ::
  "zone \<Rightarrow> int \<Rightarrow> string \<Rightarrow> int \<Rightarrow> wizardData \<Rightarrow> storage \<Rightarrow> (error + unit) \<times> storage" where
  "confirmWizard tza now newId stamp wd st =
     (let dateStr = isoDate now;
          tod = getTimeOfDay tza now;
          logData = \<lparr>date = dateStr, timeOfDay = Some tod, source = w_source wd,
            unitType = (if w_source wd = Some ''Vape'' then ''puffs''
                        else if w_source wd = Some ''Cigarettes'' then ''pieces'' else ''pieces''),
            amount = w_quantity wd, estimatedMg = w_estimatedMg wd,
            reason = (if w_reason wd = Some ''Other'' then w_otherReason wd else w_reason wd),
            healthEffects = w_healthEffects wd, focusLevel = None, anxietyLevel = None,
            clearThinking = None, log_notes = None\<rparr>
      in case addLog newId stamp logData st of
           (Inl e, st') \<Rightarrow> (Inl e, st')
         | (Inr _, st') \<Rightarrow> (Inr (), st'))"

text \<open>
  \<^verbatim>\<open>submitCognitiveCheckIn()\<close>. The values read from the form are arguments;
  \<open>now0\<close> is the clock \<^verbatim>\<open>getMostRecentLogToday\<close> reads, \<open>now\<close> the one read
  when a record is created.
\<close>

definition checkInUpdates :: "real \<Rightarrow> real \<Rightarrow> bool option \<Rightarrow> string option \<Rightarrow> logUpdates" where
  "checkInUpdates fl al ct nt =
     \<lparr>upd_date = None, upd_timeOfDay = None, upd_source = None, upd_unitType = None,
      upd_amount = None, upd_estimatedMg = None, upd_reason = None, upd_healthEffects = None,
      upd_focusLevel = Some (Some fl), upd_anxietyLevel = Some (Some al),
      upd_clearThinking = Some ct, upd_notes = Some nt, upd_id = None, upd_timestamp = None\<rparr>"

definition submitCognitiveCheckIn ::
  "zone \<Rightarrow> int \<Rightarrow> int \<Rightarrow> string \<Rightarrow> int \<Rightarrow> real \<Rightarrow> real \<Rightarrow> bool option \<Rightarrow> string option
     \<Rightarrow> storage \<Rightarrow> (error + unit) \<times> storage" where
  "submitCognitiveCheckIn tza now0 now newId stamp fl al ct nt st =
     (case getMostRecentLogToday now0 st of
        Some recentLog \<Rightarrow>
          (case updateLog (log_id recentLog) (checkInUpdates fl al ct nt) st of
             (Inl e, st') \<Rightarrow> (Inl e, st')
           | (Inr _, st') \<Rightarrow> (Inr (), st'))
      | None \<Rightarrow>
          (let dateStr = isoDate now;
               tod = getTimeOfDay tza now;
               logData = \<lparr>date = dateStr, timeOfDay = Some tod, source = Some ''None'',
                 unitType = ''other'', amount = Some 0, estimatedMg = Some 0,
                 reason = Some ''Cognitive check-in only'', healthEffects = [],
                 focusLevel = Some fl, anxietyLevel = Some al, clearThinking = ct,
                 log_notes = nt\<rparr>
           in case addLog newId stamp logData st of
                (Inl e, st') \<Rightarrow> (Inl e, st')
              | (Inr _, st') \<Rightarrow> (Inr (), st')))"

subsection \<open>Streak\<close>

text \<open>
  \<^verbatim>\<open>calculateStreak()\<close>; \<open>now\<close> is the clock it reads. The \<open>Set\<close> of dates is
  the list of the distinct dates. The \<open>while (true)\<close> loop is \<open>streakLoop\<close>, whose
  value is \<open>None\<close> when the loop does not end.
\<close>

partial_function (option) streakLoop :: "zone \<Rightarrow> int list \<Rightarrow> int \<Rightarrow> nat \<Rightarrow> nat option" where
  "streakLoop tza datesWithLogs currentDate streak =
     (if isoDate currentDate \<in> set datesWithLogs
      then streakLoop tza datesWithLogs (setDatePrev tza currentDate) (streak + 1)
      else Some streak)"

definition calculateStreak :: "zone \<Rightarrow> int \<Rightarrow> storage \<Rightarrow> nat option" where
  "calculateStreak tza now st =
     (let logs = loadLogs st in
      if length logs = 0 then Some 0
      else
        (let datesWithLogs = remdups (map date logs) in
         if length datesWithLogs = 0 then Some 0
         else
           (let today = isoDate now;
                currentDate = dateOfIso today
            in streakLoop tza datesWithLogs currentDate 0)))"

text \<open>
  Two time zones. \<open>fixedZone off\<close> keeps one offset all year. \<open>easternAutumn2024\<close> is
  US Eastern time around the end of daylight saving time in 2024: UTC-4 until
  2024-11-03T06:00Z (day 20030, 02:00 local), UTC-5 from then on.
\<close>

definition fixedZone :: "int \<Rightarrow> zone" where
  "fixedZone off = (\<lambda>t isUTC. off)"

definition easternAutumn2024 :: zone where
  "easternAutumn2024 =
     (\<lambda>t isUTC.
        if isUTC
        then (if t < 20030 * msPerDay + 6 * msPerHour then - 4 * msPerHour else - 5 * msPerHour)
        else (if t < 20030 * msPerDay + 2 * msPerHour then - 4 * msPerHour else - 5 * msPerHour))"

subsection \<open>Sequences of operations\<close>

text \<open>
  Sequences of store operations: an append with the clock reading and the random suffix
  its \<open>generateId()\<close> uses and the time stamp it reads, an amend, an import. An operation that throws is caught by its caller; the store it leaves is what
  counts.
\<close>

datatype storeOp =
  Append int string int logData | Amend string logUpdates | Import real importFile

definition applyOp :: "storeOp \<Rightarrow> storage \<Rightarrow> storage" where
  "applyOp op st =
     (case op of
        Append clock suffix stamp d \<Rightarrow> snd (addLog (generateId clock suffix) stamp d st)
      | Amend logId u \<Rightarrow> snd (updateLog logId u st)
      | Import tzo file \<Rightarrow> snd (importData tzo file st))"

definition uniqueIds :: "storage \<Rightarrow> bool" where
  "uniqueIds st = distinct (map log_id (loadLogs st))"

text \<open>
  The side conditions under which an operation keeps ids unique: the id generated for an
  append is not in the store; the updates of an amend do not name \<open>id\<close>, or name the
  id the amend targets; the records of an imported file that are new to the store have
  distinct ids.
\<close>

fun opAllowed :: "storage \<Rightarrow> storeOp \<Rightarrow> bool" where
  "opAllowed st (Append clock suffix stamp d) =
     (generateId clock suffix \<notin> log_id ` set (loadLogs st))"
| "opAllowed st (Amend logId u) = (upd_id u = None \<or> upd_id u = Some logId)"
| "opAllowed st (Import tzo (Parsed d)) =
     (case file_logs d of
        LogsArray imported \<Rightarrow>
          distinct (map log_id (filter (\<lambda>l. log_id l \<notin> log_id ` set (loadLogs st)) imported))
      | _ \<Rightarrow> True)"
| "opAllowed st (Import tzo _) = True"

fun opsAllowed :: "storage \<Rightarrow> storeOp list \<Rightarrow> bool" where
  "opsAllowed st [] = True"
| "opsAllowed st (op # ops) = (opAllowed st op \<and> opsAllowed (applyOp op st) ops)"

subsection \<open>Sweet-spot matrix\<close>

text \<open>
  \<^verbatim>\<open>computeSweetSpotMatrix(logs)\<close>. The fields \<open>min\<close> and \<open>max\<close> of a dose
  bucket are \<open>bucketMin\<close> and \<open>bucketMax\<close>.
\<close>

record doseBucket =
  bucketMin :: real
  bucketMax :: real
  label :: string

definition doseBuckets :: "doseBucket list" where
  "doseBuckets =
     [\<lparr>bucketMin = 0, bucketMax = 5, label = ''0-5 mg''\<rparr>,
      \<lparr>bucketMin = 5, bucketMax = 10, label = ''5-10 mg''\<rparr>,
      \<lparr>bucketMin = 10, bucketMax = 15, label = ''10-15 mg''\<rparr>,
      \<lparr>bucketMin = 15, bucketMax = 20, label = ''15-20 mg''\<rparr>,
      \<lparr>bucketMin = 20, bucketMax = 999, label = ''20+ mg''\<rparr>]"

definition timeBuckets :: "string list" where
  "timeBuckets = [''morning'', ''afternoon'', ''evening'', ''night'']"

definition timeLabels :: "string list" where
  "timeLabels = [''6AM'', ''12PM'', ''6PM'', ''9PM'']"

text \<open>
  The working matrix \<open>matrix[label][time]\<close> is a map from the pair of keys to the cell;
  a pair that is no key stands for \<open>undefined\<close>. The two nested \<open>forEach\<close> that
  initialise it are the two folds.
\<close>

record cell =
  focus :: "real list"
  anxiety :: "real list"
  count :: nat

type_synonym matrix = "string \<times> string \<rightharpoonup> cell"

definition initMatrix :: matrix where
  "initMatrix =
     fold (\<lambda>bucket m.
        fold (\<lambda>time m'. m'((label bucket, time) \<mapsto> \<lparr>focus = [], anxiety = [], count = 0\<rparr>))
          timeBuckets m)
       doseBuckets Map.empty"

text \<open>
  The body of \<open>logs.forEach\<close>: the three early returns, \<open>doseBuckets.find\<close>, the
  return when no bucket matches, and the update of the cell (the dose and the time of day
  are present once the first test has passed). Reading
  \<open>matrix[doseBucket.label][log.timeOfDay]\<close> for a time of day that is no key gives
  \<open>undefined\<close>, and \<open>cell.focus\<close> then throws a \<open>TypeError\<close>.
\<close>

definition findBucket :: "real \<Rightarrow> doseBucket option" where
  "findBucket mg = List.find (\<lambda>bucket. mg \<ge> bucketMin bucket \<and> mg < bucketMax bucket) doseBuckets"

definition addToMatrix :: "matrix \<Rightarrow> log \<Rightarrow> error + matrix" where
  "addToMatrix m l =
     (if \<not> truthy_num (estimatedMg l) \<or> \<not> truthy_str (timeOfDay l) then Inr m
      else
        (case focusLevel l of
           None \<Rightarrow> Inr m
         | Some fl \<Rightarrow>
        (case anxietyLevel l of
           None \<Rightarrow> Inr m
         | Some al \<Rightarrow>
        (case estimatedMg l of
           None \<Rightarrow> Inr m
         | Some mg \<Rightarrow>
        (case timeOfDay l of
           None \<Rightarrow> Inr m
         | Some time \<Rightarrow>
        (case findBucket mg of
           None \<Rightarrow> Inr m
         | Some bucket \<Rightarrow>
        (case m (label bucket, time) of
           None \<Rightarrow> Inl TypeError
         | Some c \<Rightarrow>
             Inr (m((label bucket, time) \<mapsto>
               \<lparr>focus = focus c @ [fl], anxiety = anxiety c @ [al],
                count = count c + 1\<rparr>)))))))))"

fun populate :: "matrix \<Rightarrow> log list \<Rightarrow> error + matrix" where
  "populate m [] = Inr m"
| "populate m (l # ls) =
     (case addToMatrix m l of Inl e \<Rightarrow> Inl e | Inr m' \<Rightarrow> populate m' ls)"

text \<open>
  An entry of \<open>result.cells\<close>; its fields \<open>avgFocus\<close>, \<open>avgAnxiety\<close> and
  \<open>count\<close> are \<open>cellAvgFocus\<close>, \<open>cellAvgAnxiety\<close> and \<open>cellCount\<close>. The fields
  \<open>doseBuckets\<close> and \<open>timeBuckets\<close> of the result are \<open>resultDoseBuckets\<close> and
  \<open>resultTimeBuckets\<close>.
\<close>

record matrixCell =
  doseIdx :: nat
  timeIdx :: nat
  doseLabel :: string
  timeLabel :: string
  cellAvgFocus :: real
  cellAvgAnxiety :: real
  metric :: real
  cellCount :: nat

record matrixResult =
  resultDoseBuckets :: "string list"
  resultTimeBuckets :: "string list"
  cells :: "matrixCell list"

definition cellResult :: "matrix \<Rightarrow> nat \<Rightarrow> doseBucket \<Rightarrow> nat \<Rightarrow> string \<Rightarrow> error + matrixCell" where
  "cellResult m dIdx bucket tIdx time =
     (case m (label bucket, time) of
        None \<Rightarrow> Inl TypeError
      | Some c \<Rightarrow>
          Inr (if count c > 0
               then
                 (let avgF = foldl (+) 0 (focus c) / real (length (focus c));
                      avgA = foldl (+) 0 (anxiety c) / real (length (anxiety c));
                      metric0 = ((avgF - avgA) + 9) / 18 * 100
                  in \<lparr>doseIdx = dIdx, timeIdx = tIdx, doseLabel = label bucket,
                      timeLabel = timeLabels ! tIdx, cellAvgFocus = avgF, cellAvgAnxiety = avgA,
                      metric = max 0 (min 100 metric0), cellCount = count c\<rparr>)
               else \<lparr>doseIdx = dIdx, timeIdx = tIdx, doseLabel = label bucket,
                      timeLabel = timeLabels ! tIdx, cellAvgFocus = 0, cellAvgAnxiety = 0,
                      metric = 0, cellCount = count c\<rparr>))"

text \<open>
  \<open>collect\<close> runs computations in order and stops at the first that throws.
\<close>

fun collect :: "(error + 'a) list \<Rightarrow> error + 'a list" where
  "collect [] = Inr []"
| "collect (x # xs) =
     (case x of
        Inl e \<Rightarrow> Inl e
      | Inr v \<Rightarrow> (case collect xs of Inl e \<Rightarrow> Inl e | Inr vs \<Rightarrow> Inr (v # vs)))"

definition computeSweetSpotMatrix :: "log list \<Rightarrow> error + matrixResult" where
  "computeSweetSpotMatrix logs =
     (case populate initMatrix logs of
        Inl e \<Rightarrow> Inl e
      | Inr m \<Rightarrow>
          (case collect (concat (map (\<lambda>(dIdx, bucket).
                    map (\<lambda>(tIdx, time). cellResult m dIdx bucket tIdx time)
                      (enumerate 0 timeBuckets))
                  (enumerate 0 doseBuckets))) of
             Inl e \<Rightarrow> Inl e
           | Inr cs \<Rightarrow>
               Inr \<lparr>resultDoseBuckets = map label doseBuckets,
                    resultTimeBuckets = timeLabels, cells = cs\<rparr>))"

text \<open>
  What the working matrix holds after a list of records has been processed: the cell
  \<open>(lbl, time)\<close> has collected, in order, the records that pass the guards, whose
  dose \<open>find\<close> puts in the bucket labelled \<open>lbl\<close> and whose time of day is
  \<open>time\<close>. \<open>cellOut\<close> is the entry of \<open>result.cells\<close> computed from a cell.
\<close>

definition hitsCell :: "string \<Rightarrow> string \<Rightarrow> log \<Rightarrow> bool" where
  "hitsCell lbl time l =
     (truthy_num (estimatedMg l) \<and> focusLevel l \<noteq> None \<and> anxietyLevel l \<noteq> None
      \<and> map_option label (Option.bind (estimatedMg l) findBucket) = Some lbl
      \<and> time \<noteq> [] \<and> timeOfDay l = Some time)"

definition cellOf :: "string \<Rightarrow> string \<Rightarrow> log list \<Rightarrow> cell" where
  "cellOf lbl time ls =
     \<lparr>focus = presentLevels (map focusLevel (filter (hitsCell lbl time) ls)),
      anxiety = presentLevels (map anxietyLevel (filter (hitsCell lbl time) ls)),
      count = length (filter (hitsCell lbl time) ls)\<rparr>"

definition matrixOf :: "log list \<Rightarrow> matrix" where
  "matrixOf ls =
     (\<lambda>(lbl, time).
        if lbl \<in> set (map label doseBuckets) \<and> time \<in> set timeBuckets
        then Some (cellOf lbl time ls) else None)"

definition cellOut :: "cell \<Rightarrow> nat \<Rightarrow> doseBucket \<Rightarrow> nat \<Rightarrow> matrixCell" where
  "cellOut c dIdx bucket tIdx =
     (if count c > 0
      then
        (let avgF = foldl (+) 0 (focus c) / real (length (focus c));
             avgA = foldl (+) 0 (anxiety c) / real (length (anxiety c));
             metric0 = ((avgF - avgA) + 9) / 18 * 100
         in \<lparr>doseIdx = dIdx, timeIdx = tIdx, doseLabel = label bucket,
             timeLabel = timeLabels ! tIdx, cellAvgFocus = avgF, cellAvgAnxiety = avgA,
             metric = max 0 (min 100 metric0), cellCount = count c\<rparr>)
      else \<lparr>doseIdx = dIdx, timeIdx = tIdx, doseLabel = label bucket,
             timeLabel = timeLabels ! tIdx, cellAvgFocus = 0, cellAvgAnxiety = 0,
             metric = 0, cellCount = count c\<rparr>)"

subsection \<open>The grid as specified\<close>

text \<open>
  The grid in the specification's words: a record qualifies with a dose above 0, a time of
  day and both levels; the dose intervals are [0,5), [5,10), [10,15), [15,20) and
  [20,\<infinity>), numbered from 0; \<open>inCell i j\<close> says that a record belongs to dose row
  \<open>i\<close> and time column \<open>j\<close>.
\<close>

definition qualifies :: "log \<Rightarrow> bool" where
  "qualifies l =
     ((case estimatedMg l of None \<Rightarrow> False | Some mg \<Rightarrow> 0 < mg)
      \<and> truthy_str (timeOfDay l) \<and> focusLevel l \<noteq> None \<and> anxietyLevel l \<noteq> None)"

definition doseInterval :: "real \<Rightarrow> nat" where
  "doseInterval mg =
     (if mg < 5 then 0 else if mg < 10 then 1 else if mg < 15 then 2
      else if mg < 20 then 3 else 4)"

definition inCell :: "nat \<Rightarrow> nat \<Rightarrow> log \<Rightarrow> bool" where
  "inCell i j l =
     (qualifies l \<and> map_option doseInterval (estimatedMg l) = Some i
      \<and> timeOfDay l = Some (timeBuckets ! j))"

subsection \<open>Sample data\<close>

text \<open>
  A record of the shape \<^verbatim>\<open>generateSampleLogs\<close> pushes, with the fields the
  aggregations read left open. The concrete instances below are built from it.
\<close>

definition sampleLog ::
  "string \<Rightarrow> int \<Rightarrow> int \<Rightarrow> string option \<Rightarrow> real option \<Rightarrow> real option \<Rightarrow> real option \<Rightarrow> log" where
  "sampleLog ident stamp day tod mg fl al =
     \<lparr>date = day, timeOfDay = tod, source = Some ''Vape'', unitType = ''puffs'',
      amount = Some 5, estimatedMg = mg, reason = Some ''Stress'',
      healthEffects = [''Reduced stress''], focusLevel = fl, anxietyLevel = al,
      clearThinking = Some True, log_notes = None, log_id = ident, timestamp = stamp\<rparr>"

definition sampleStore :: storage where
  "sampleStore =
     \<lparr>logsItem = Some
        [sampleLog ''a'' 100 1 (Some ''morning'') (Some 3) None None,
         sampleLog ''b'' 200 1 (Some ''evening'') (Some 7) (Some 8) (Some 2)],
      settingsItem = None, rejectsWrites = False, rejectsSettingsWrites = False\<rparr>"

definition settingsStore :: storage where
  "settingsStore =
     sampleStore\<lparr>settingsItem :=
       Some (Map.empty(''dailyEventLimit'' \<mapsto> JNum 9, ''dailyMgLimit'' \<mapsto> JNum 50))\<rparr>"

definition generatedStore :: storage where
  "generatedStore =
     \<lparr>logsItem = Some
        [sampleLog (generateId 100 ''ab'') 100 1 (Some ''morning'') (Some 3) None None,
         sampleLog (generateId 150 ''cd'') 150 1 (Some ''evening'') (Some 7) (Some 8) (Some 2)],
      settingsItem = None, rejectsWrites = False, rejectsSettingsWrites = False\<rparr>"

definition sampleFile :: importedData where
  "sampleFile =
     \<lparr>file_logs = LogsArray
        [sampleLog ''b'' 999 9 (Some ''night'') (Some 1) None None,
         sampleLog ''c'' 300 2 (Some ''afternoon'') (Some 12) (Some 5) (Some 5)],
      file_settings = Some (Map.empty(''dailyMgLimit'' \<mapsto> JNum 60))\<rparr>"

definition renameTo :: "string \<Rightarrow> logUpdates" where
  "renameTo newId = (checkInUpdates 5 5 None None)\<lparr>upd_id := Some newId\<rparr>"

definition twiceFile :: importedData where
  "twiceFile =
     \<lparr>file_logs = LogsArray
        [sampleLog ''c'' 300 2 (Some ''afternoon'') (Some 12) (Some 5) (Some 5),
         sampleLog ''c'' 400 2 (Some ''evening'') (Some 2) (Some 6) (Some 4)],
      file_settings = None\<rparr>"

definition sampleWizard :: wizardData where
  "sampleWizard =
     \<lparr>w_source = Some ''Cigarettes'', w_quantity = Some 2, w_strength = 1,
      w_healthEffects = [''Alertness''], w_reason = Some ''Stress'', w_otherReason = None,
      w_estimatedMg = Some 2\<rparr>"

definition novemberStore :: storage where
  "novemberStore =
     \<lparr>logsItem = Some
        [sampleLog ''s1'' (20030 * msPerDay + 15 * msPerHour) 20030 (Some ''morning'')
           (Some 3) None None,
         sampleLog ''s2'' (20031 * msPerDay + 14 * msPerHour) 20031 (Some ''morning'')
           (Some 3) None None],
      settingsItem = None, rejectsWrites = False, rejectsSettingsWrites = False\<rparr>"

section \<open>Properties\<close>

lemma getHours_range: "0 \<le> getHours tza t \<and> getHours tza t < 24"
  by (simp add: getHours_def)

text \<open>
  C3. The estimate is 0 whenever the quantity or the strength is at most 0, whatever the
  source; otherwise it is \<open>(strength / 200) * quantity\<close> for \<open>Vape\<close>,
  \<open>strength * quantity\<close> for \<open>Cigarettes\<close> and for \<open>Snus\<close>, and 0 for every other
  source. The three sample values of the specification follow.
\<close>

theorem calculateEstimatedMg_contract:
  "calculateEstimatedMg src (Some q) (Some s) =
     (if q \<le> 0 \<or> s \<le> 0 then 0
      else if src = ''Vape'' then (s / 200) * q
      else if src = ''Cigarettes'' \<or> src = ''Snus'' then s * q
      else 0)
   \<and> calculateEstimatedMg ''Cigarettes'' (Some 3) (Some 2) = 6
   \<and> calculateEstimatedMg ''Vape'' (Some 200) (Some 10) = 10
   \<and> calculateEstimatedMg ''Snus'' (Some 4) (Some 1.5) = 6"
  by (simp add: calculateEstimatedMg_def)

theorem calculateEstimatedMg_contract_witness:
  "calculateEstimatedMg ''Vape'' (Some 40) (Some 20) = 4
   \<and> calculateEstimatedMg ''Snus'' (Some (-1)) (Some 8) = 0
   \<and> calculateEstimatedMg ''Gum'' (Some 2) (Some 4) = 0"
  using calculateEstimatedMg_contract [of "''Vape''" 40 20]
    calculateEstimatedMg_contract [of "''Snus''" "-1" 8]
    calculateEstimatedMg_contract [of "''Gum''" 2 4]
  by simp

text \<open>
  C10. The classifier is total and gives every hour exactly one category: \<open>morning\<close>
  exactly on [5,12), \<open>afternoon\<close> exactly on [12,17), \<open>evening\<close> exactly on [17,22)
  and \<open>night\<close> on every other hour, which for an hour of the day means 22, 23 and 0 to 4.
  The hour \<open>getHours\<close> returns is always an hour of the day.
\<close>

theorem hourCategory_boundaries:
  "(hourCategory h = ''morning'' \<longleftrightarrow> 5 \<le> h \<and> h < 12)
   \<and> (hourCategory h = ''afternoon'' \<longleftrightarrow> 12 \<le> h \<and> h < 17)
   \<and> (hourCategory h = ''evening'' \<longleftrightarrow> 17 \<le> h \<and> h < 22)
   \<and> (hourCategory h = ''night'' \<longleftrightarrow> h < 5 \<or> 22 \<le> h)
   \<and> hourCategory h \<in> {''morning'', ''afternoon'', ''evening'', ''night''}
   \<and> getTimeOfDay tza t = hourCategory (getHours tza t)
   \<and> 0 \<le> getHours tza t \<and> getHours tza t < 24
   \<and> (getTimeOfDay tza t = ''night'' \<longleftrightarrow> getHours tza t \<in> {22, 23, 0, 1, 2, 3, 4})"
proof -
  have cat: "(hourCategory h = ''morning'' \<longleftrightarrow> 5 \<le> h \<and> h < 12)
      \<and> (hourCategory h = ''afternoon'' \<longleftrightarrow> 12 \<le> h \<and> h < 17)
      \<and> (hourCategory h = ''evening'' \<longleftrightarrow> 17 \<le> h \<and> h < 22)
      \<and> (hourCategory h = ''night'' \<longleftrightarrow> h < 5 \<or> 22 \<le> h)
      \<and> hourCategory h \<in> {''morning'', ''afternoon'', ''evening'', ''night''}"
    by (auto simp: hourCategory_def)
  have night: "hourCategory k = ''night'' \<longleftrightarrow> k < 5 \<or> 22 \<le> k" for k
    by (auto simp: hourCategory_def)
  have rng: "0 \<le> getHours tza t \<and> getHours tza t < 24"
    by (rule getHours_range)
  have tod: "getTimeOfDay tza t = hourCategory (getHours tza t)"
    by (simp add: getTimeOfDay_def)
  have "getTimeOfDay tza t = ''night'' \<longleftrightarrow> getHours tza t \<in> {22, 23, 0, 1, 2, 3, 4}"
    unfolding getTimeOfDay_def night using rng by auto
  with cat tod rng show ?thesis
    by blast
qed


subsection \<open>Daily statistics\<close>

lemma foldl_plus_sum_list: "foldl (+) (a::real) xs = a + sum_list xs"
  by (induction xs arbitrary: a) simp_all


lemma length_presentLevels:
  "length (presentLevels (map f ls)) = length (filter (\<lambda>l. f l \<noteq> None) ls)"
  by (induction ls) (simp_all add: presentLevels_def)

lemma presentLevels_filter:
  "presentLevels (map f (filter P ls)) = presentLevels (map f (filter (\<lambda>l. P l \<and> f l \<noteq> None) ls))"
  by (induction ls) (simp_all add: presentLevels_def)






subsection \<open>Amending a record\<close>

lemma findIndex_first:
  "findIndex p xs = (if \<exists>x \<in> set xs. p x then Some (length (takeWhile (\<lambda>x. \<not> p x) xs)) else None)"
  by (induction xs) auto

lemma takeWhile_first_props:
  assumes "\<exists>x \<in> set xs. p x"
  shows "length (takeWhile (\<lambda>x. \<not> p x) xs) < length xs"
    and "p (xs ! length (takeWhile (\<lambda>x. \<not> p x) xs))"
  using assms by (induction xs) auto

lemma updateLog_absent:
  assumes "logId \<notin> log_id ` set (loadLogs st)"
  shows "updateLog logId u st = (Inl (Error ''Log not found''), st)"
proof -
  have "\<not> (\<exists>l \<in> set (loadLogs st). log_id l = logId)"
    using assms by auto
  then have "findIndex (\<lambda>l. log_id l = logId) (loadLogs st) = None"
    by (simp add: findIndex_first)
  then show ?thesis
    by (simp add: updateLog_def Let_def)
qed

lemma updateLog_present:
  assumes "logId \<in> log_id ` set (loadLogs st)"
  defines "i \<equiv> length (takeWhile (\<lambda>l. log_id l \<noteq> logId) (loadLogs st))"
  shows "i < length (loadLogs st)"
    and "log_id (loadLogs st ! i) = logId"
    and "updateLog logId u st =
      (if rejectsWrites st then (Inl (Error ''Failed to save logs''), st)
       else (Inr (mergeLog (loadLogs st ! i) u),
             st\<lparr>logsItem := Some ((loadLogs st)[i := mergeLog (loadLogs st ! i) u])\<rparr>))"
proof -
  have ex: "\<exists>l \<in> set (loadLogs st). log_id l = logId"
    using assms(1) by auto
  show lt: "i < length (loadLogs st)"
    unfolding i_def using takeWhile_first_props(1) [OF ex] by simp
  show "log_id (loadLogs st ! i) = logId"
    unfolding i_def using takeWhile_first_props(2) [OF ex] by simp
  have "findIndex (\<lambda>l. log_id l = logId) (loadLogs st) = Some i"
    using ex by (simp add: findIndex_first i_def)
  then show "updateLog logId u st =
      (if rejectsWrites st then (Inl (Error ''Failed to save logs''), st)
       else (Inr (mergeLog (loadLogs st ! i) u),
             st\<lparr>logsItem := Some ((loadLogs st)[i := mergeLog (loadLogs st ! i) u])\<rparr>))"
    using lt by (simp add: updateLog_def Let_def saveLogs_def)
qed

lemma loadLogs_stored [simp]: "loadLogs (st\<lparr>logsItem := Some ls\<rparr>) = ls"
  by (simp add: loadLogs_def)

text \<open>
  C8. Amend (\<^verbatim>\<open>updateLog\<close>) with an id that no stored record has throws
  \<open>Log not found\<close> and leaves the store as it was. With an id that is present, and a
  medium that accepts the write, it replaces the first record with that id by the merge
  of the record and the updates, stores the list, leaves every other record as it was and
  returns the merged record. In the merge every field the updates do not name keeps its
  value, and every field they name takes the given one.
\<close>

theorem updateLog_contract:
  "(logId \<notin> log_id ` set (loadLogs st) \<longrightarrow>
      updateLog logId u st = (Inl (Error ''Log not found''), st))
   \<and> (logId \<in> log_id ` set (loadLogs st) \<and> \<not> rejectsWrites st \<longrightarrow>
      (let i = length (takeWhile (\<lambda>l. log_id l \<noteq> logId) (loadLogs st));
           updated = mergeLog (loadLogs st ! i) u
       in i < length (loadLogs st) \<and> log_id (loadLogs st ! i) = logId
          \<and> updateLog logId u st
              = (Inr updated, st\<lparr>logsItem := Some ((loadLogs st)[i := updated])\<rparr>)
          \<and> loadLogs (snd (updateLog logId u st)) = (loadLogs st)[i := updated]
          \<and> (\<forall>j < length (loadLogs st). j \<noteq> i \<longrightarrow>
                loadLogs (snd (updateLog logId u st)) ! j = loadLogs st ! j)))
   \<and> date (mergeLog l u) = (case upd_date u of None \<Rightarrow> date l | Some v \<Rightarrow> v)
   \<and> timeOfDay (mergeLog l u) = (case upd_timeOfDay u of None \<Rightarrow> timeOfDay l | Some v \<Rightarrow> v)
   \<and> source (mergeLog l u) = (case upd_source u of None \<Rightarrow> source l | Some v \<Rightarrow> v)
   \<and> unitType (mergeLog l u) = (case upd_unitType u of None \<Rightarrow> unitType l | Some v \<Rightarrow> v)
   \<and> amount (mergeLog l u) = (case upd_amount u of None \<Rightarrow> amount l | Some v \<Rightarrow> v)
   \<and> estimatedMg (mergeLog l u) = (case upd_estimatedMg u of None \<Rightarrow> estimatedMg l | Some v \<Rightarrow> v)
   \<and> reason (mergeLog l u) = (case upd_reason u of None \<Rightarrow> reason l | Some v \<Rightarrow> v)
   \<and> healthEffects (mergeLog l u)
       = (case upd_healthEffects u of None \<Rightarrow> healthEffects l | Some v \<Rightarrow> v)
   \<and> focusLevel (mergeLog l u) = (case upd_focusLevel u of None \<Rightarrow> focusLevel l | Some v \<Rightarrow> v)
   \<and> anxietyLevel (mergeLog l u)
       = (case upd_anxietyLevel u of None \<Rightarrow> anxietyLevel l | Some v \<Rightarrow> v)
   \<and> clearThinking (mergeLog l u)
       = (case upd_clearThinking u of None \<Rightarrow> clearThinking l | Some v \<Rightarrow> v)
   \<and> log_notes (mergeLog l u) = (case upd_notes u of None \<Rightarrow> log_notes l | Some v \<Rightarrow> v)
   \<and> log_id (mergeLog l u) = (case upd_id u of None \<Rightarrow> log_id l | Some v \<Rightarrow> v)
   \<and> timestamp (mergeLog l u) = (case upd_timestamp u of None \<Rightarrow> timestamp l | Some v \<Rightarrow> v)"
proof -
  have absent: "logId \<notin> log_id ` set (loadLogs st) \<longrightarrow>
      updateLog logId u st = (Inl (Error ''Log not found''), st)"
    using updateLog_absent by blast
  have present: "logId \<in> log_id ` set (loadLogs st) \<and> \<not> rejectsWrites st \<longrightarrow>
      (let i = length (takeWhile (\<lambda>l. log_id l \<noteq> logId) (loadLogs st));
           updated = mergeLog (loadLogs st ! i) u
       in i < length (loadLogs st) \<and> log_id (loadLogs st ! i) = logId
          \<and> updateLog logId u st
              = (Inr updated, st\<lparr>logsItem := Some ((loadLogs st)[i := updated])\<rparr>)
          \<and> loadLogs (snd (updateLog logId u st)) = (loadLogs st)[i := updated]
          \<and> (\<forall>j < length (loadLogs st). j \<noteq> i \<longrightarrow>
                loadLogs (snd (updateLog logId u st)) ! j = loadLogs st ! j))"
  proof
    assume a: "logId \<in> log_id ` set (loadLogs st) \<and> \<not> rejectsWrites st"
    from a have m: "logId \<in> log_id ` set (loadLogs st)"
      by simp
    note p = updateLog_present [OF m]
    from a p(1) p(2) p(3) [of u] show "let i = length (takeWhile (\<lambda>l. log_id l \<noteq> logId) (loadLogs st));
           updated = mergeLog (loadLogs st ! i) u
       in i < length (loadLogs st) \<and> log_id (loadLogs st ! i) = logId
          \<and> updateLog logId u st
              = (Inr updated, st\<lparr>logsItem := Some ((loadLogs st)[i := updated])\<rparr>)
          \<and> loadLogs (snd (updateLog logId u st)) = (loadLogs st)[i := updated]
          \<and> (\<forall>j < length (loadLogs st). j \<noteq> i \<longrightarrow>
                loadLogs (snd (updateLog logId u st)) ! j = loadLogs st ! j)"
      by (simp add: Let_def)
  qed
  have fields: "date (mergeLog l u) = (case upd_date u of None \<Rightarrow> date l | Some v \<Rightarrow> v)
   \<and> timeOfDay (mergeLog l u) = (case upd_timeOfDay u of None \<Rightarrow> timeOfDay l | Some v \<Rightarrow> v)
   \<and> source (mergeLog l u) = (case upd_source u of None \<Rightarrow> source l | Some v \<Rightarrow> v)
   \<and> unitType (mergeLog l u) = (case upd_unitType u of None \<Rightarrow> unitType l | Some v \<Rightarrow> v)
   \<and> amount (mergeLog l u) = (case upd_amount u of None \<Rightarrow> amount l | Some v \<Rightarrow> v)
   \<and> estimatedMg (mergeLog l u) = (case upd_estimatedMg u of None \<Rightarrow> estimatedMg l | Some v \<Rightarrow> v)
   \<and> reason (mergeLog l u) = (case upd_reason u of None \<Rightarrow> reason l | Some v \<Rightarrow> v)
   \<and> healthEffects (mergeLog l u)
       = (case upd_healthEffects u of None \<Rightarrow> healthEffects l | Some v \<Rightarrow> v)
   \<and> focusLevel (mergeLog l u) = (case upd_focusLevel u of None \<Rightarrow> focusLevel l | Some v \<Rightarrow> v)
   \<and> anxietyLevel (mergeLog l u)
       = (case upd_anxietyLevel u of None \<Rightarrow> anxietyLevel l | Some v \<Rightarrow> v)
   \<and> clearThinking (mergeLog l u)
       = (case upd_clearThinking u of None \<Rightarrow> clearThinking l | Some v \<Rightarrow> v)
   \<and> log_notes (mergeLog l u) = (case upd_notes u of None \<Rightarrow> log_notes l | Some v \<Rightarrow> v)
   \<and> log_id (mergeLog l u) = (case upd_id u of None \<Rightarrow> log_id l | Some v \<Rightarrow> v)
   \<and> timestamp (mergeLog l u) = (case upd_timestamp u of None \<Rightarrow> timestamp l | Some v \<Rightarrow> v)"
    by (simp add: mergeLog_def override_def)
  from absent present fields show ?thesis
    by blast
qed

theorem updateLog_contract_witness:
  "updateLog ''zz'' (checkInUpdates 6 4 None None) sampleStore
     = (Inl (Error ''Log not found''), sampleStore)
   \<and> fst (updateLog ''a'' (checkInUpdates 6 4 None None) sampleStore)
     = Inr (mergeLog (sampleLog ''a'' 100 1 (Some ''morning'') (Some 3) None None)
         (checkInUpdates 6 4 None None))
   \<and> map log_id (loadLogs (snd (updateLog ''a'' (checkInUpdates 6 4 None None) sampleStore)))
     = [''a'', ''b'']
   \<and> map focusLevel (loadLogs (snd (updateLog ''a'' (checkInUpdates 6 4 None None) sampleStore)))
     = [Some 6, Some 8]
   \<and> map estimatedMg (loadLogs (snd (updateLog ''a'' (checkInUpdates 6 4 None None) sampleStore)))
     = [Some 3, Some 7]"
  using updateLog_contract [of "''zz''" sampleStore "checkInUpdates 6 4 None None"
      "sampleLog ''a'' 100 1 (Some ''morning'') (Some 3) None None"]
    updateLog_contract [of "''a''" sampleStore "checkInUpdates 6 4 None None"
      "sampleLog ''a'' 100 1 (Some ''morning'') (Some 3) None None"]
  by (simp add: sampleStore_def loadLogs_def sampleLog_def checkInUpdates_def Let_def)


subsection \<open>Import\<close>

lemma importLogs_accepted:
  assumes "\<not> rejectsWrites st" and "given = None \<or> \<not> rejectsSettingsWrites st"
  shows "importLogs tzo imported given st =
     (Inr (length (filter (\<lambda>l. log_id l \<notin> log_id ` set (loadLogs st)) imported)),
      st\<lparr>logsItem := Some (loadLogs st
           @ filter (\<lambda>l. log_id l \<notin> log_id ` set (loadLogs st)) imported),
         settingsItem := (case given of None \<Rightarrow> settingsItem st
                          | Some s \<Rightarrow> Some (loadSettings tzo st ++ s))\<rparr>)"
  using assms
  by (cases given) (simp_all add: importLogs_def Let_def saveLogs_def saveSettings_def loadSettings_def)

lemma importLogs_settings_refused:
  assumes "\<not> rejectsWrites st" and "rejectsSettingsWrites st"
  shows "importLogs tzo imported (Some s) st =
     (Inl (Error ''Failed to save settings''),
      st\<lparr>logsItem := Some (loadLogs st
           @ filter (\<lambda>l. log_id l \<notin> log_id ` set (loadLogs st)) imported)\<rparr>)"
  using assms by (simp add: importLogs_def Let_def saveLogs_def saveSettings_def)

lemma loadSettings_stored:
  "loadSettings tzo st
     = DEFAULT_SETTINGS tzo ++ (case settingsItem st of None \<Rightarrow> Map.empty | Some stored \<Rightarrow> stored)"
  by (simp add: loadSettings_def split: option.splits)

lemma importLogs_rejected:
  assumes "rejectsWrites st"
  shows "importLogs tzo imported given st = (Inl (Error ''Failed to save logs''), st)"
  using assms by (simp add: importLogs_def Let_def saveLogs_def)

lemma length_filter_split: "length (filter P xs) + length (filter (\<lambda>x. \<not> P x) xs) = length xs"
  by (induction xs) simp_all

text \<open>
  C4. Import of a parsed file whose \<open>logs\<close> field is missing or is not an array throws
  the validation error and leaves the store, logs and settings, as it was. Import of a
  file whose \<open>logs\<close> is an array, on a medium that accepts writes: the records whose
  id some stored record has are skipped, the others are appended in the file's order
  after the stored records, which stay as they are; the count reported is the number of
  appended records, so skipped and appended records together are the file's; settings the
  file provides are stored merged over the current settings, which are the stored
  settings item over the defaults (the medium accepting that write too): a key the file
  names takes the file's value, any other key keeps its stored value, or its default when
  nothing is stored for it; without settings in the file the settings item is untouched.
\<close>

theorem importData_contract:
  "(file_logs d = LogsAbsent \<or> file_logs d = LogsNotArray \<longrightarrow>
      importData tzo (Parsed d) st
        = (Inl (Error ''Invalid file format: missing logs array''), st))
   \<and> (file_logs d = LogsArray imported \<and> \<not> rejectsWrites st
        \<and> (file_settings d = None \<or> \<not> rejectsSettingsWrites st) \<longrightarrow>
      (let existing = loadLogs st;
           shared = filter (\<lambda>l. log_id l \<in> log_id ` set existing) imported;
           new = filter (\<lambda>l. log_id l \<notin> log_id ` set existing) imported;
           st' = snd (importData tzo (Parsed d) st)
       in fst (importData tzo (Parsed d) st) = Inr (length new)
          \<and> loadLogs st' = existing @ new
          \<and> take (length existing) (loadLogs st') = existing
          \<and> length (loadLogs st') = length existing + length new
          \<and> length shared + length new = length imported
          \<and> settingsItem st'
              = (case file_settings d of
                   None \<Rightarrow> settingsItem st
                 | Some given \<Rightarrow>
                     Some ((DEFAULT_SETTINGS tzo
                         ++ (case settingsItem st of None \<Rightarrow> Map.empty | Some stored \<Rightarrow> stored))
                       ++ given))
          \<and> rejectsWrites st' = rejectsWrites st))"
proof -
  have invalid: "file_logs d = LogsAbsent \<or> file_logs d = LogsNotArray \<longrightarrow>
      importData tzo (Parsed d) st
        = (Inl (Error ''Invalid file format: missing logs array''), st)"
    by (auto simp: importData_def)
  have valid: "file_logs d = LogsArray imported \<and> \<not> rejectsWrites st
        \<and> (file_settings d = None \<or> \<not> rejectsSettingsWrites st) \<longrightarrow>
      (let existing = loadLogs st;
           shared = filter (\<lambda>l. log_id l \<in> log_id ` set existing) imported;
           new = filter (\<lambda>l. log_id l \<notin> log_id ` set existing) imported;
           st' = snd (importData tzo (Parsed d) st)
       in fst (importData tzo (Parsed d) st) = Inr (length new)
          \<and> loadLogs st' = existing @ new
          \<and> take (length existing) (loadLogs st') = existing
          \<and> length (loadLogs st') = length existing + length new
          \<and> length shared + length new = length imported
          \<and> settingsItem st'
              = (case file_settings d of
                   None \<Rightarrow> settingsItem st
                 | Some given \<Rightarrow>
                     Some ((DEFAULT_SETTINGS tzo
                         ++ (case settingsItem st of None \<Rightarrow> Map.empty | Some stored \<Rightarrow> stored))
                       ++ given))
          \<and> rejectsWrites st' = rejectsWrites st)"
  proof
    assume a: "file_logs d = LogsArray imported \<and> \<not> rejectsWrites st
        \<and> (file_settings d = None \<or> \<not> rejectsSettingsWrites st)"
    then have w: "\<not> rejectsWrites st"
      and ws: "file_settings d = None \<or> \<not> rejectsSettingsWrites st"
      by simp_all
    have run: "importData tzo (Parsed d) st = importLogs tzo imported (file_settings d) st"
      using a by (simp add: importData_def)
    have ld: "loadLogs (st\<lparr>logsItem := Some ls, settingsItem := x\<rparr>) = ls" for ls x
      by (simp add: loadLogs_def)
    show "let existing = loadLogs st;
           shared = filter (\<lambda>l. log_id l \<in> log_id ` set existing) imported;
           new = filter (\<lambda>l. log_id l \<notin> log_id ` set existing) imported;
           st' = snd (importData tzo (Parsed d) st)
       in fst (importData tzo (Parsed d) st) = Inr (length new)
          \<and> loadLogs st' = existing @ new
          \<and> take (length existing) (loadLogs st') = existing
          \<and> length (loadLogs st') = length existing + length new
          \<and> length shared + length new = length imported
          \<and> settingsItem st'
              = (case file_settings d of
                   None \<Rightarrow> settingsItem st
                 | Some given \<Rightarrow>
                     Some ((DEFAULT_SETTINGS tzo
                         ++ (case settingsItem st of None \<Rightarrow> Map.empty | Some stored \<Rightarrow> stored))
                       ++ given))
          \<and> rejectsWrites st' = rejectsWrites st"
      unfolding Let_def run importLogs_accepted [OF w ws] loadSettings_stored
      by (simp add: ld length_filter_split)
  qed
  from invalid valid show ?thesis
    by blast
qed

theorem importData_contract_witness:
  "importData 0 (Parsed (sampleFile\<lparr>file_logs := LogsAbsent\<rparr>)) sampleStore
     = (Inl (Error ''Invalid file format: missing logs array''), sampleStore)
   \<and> importData 0 (Parsed (sampleFile\<lparr>file_logs := LogsNotArray\<rparr>)) sampleStore
     = (Inl (Error ''Invalid file format: missing logs array''), sampleStore)
   \<and> fst (importData 0 (Parsed sampleFile) sampleStore) = Inr 1
   \<and> map log_id (loadLogs (snd (importData 0 (Parsed sampleFile) sampleStore)))
       = [''a'', ''b'', ''c'']
   \<and> map timestamp (loadLogs (snd (importData 0 (Parsed sampleFile) sampleStore)))
       = [100, 200, 300]
   \<and> map_option (\<lambda>s. (s ''dailyMgLimit'', s ''dailyEventLimit''))
        (settingsItem (snd (importData 0 (Parsed sampleFile) sampleStore)))
       = Some (Some (JNum 60), Some (JNum 5))
   \<and> map_option
        (\<lambda>s. (s ''dailyMgLimit'', s ''dailyEventLimit'', s ''morningLimitEnabled'', s ''theme''))
        (settingsItem (snd (importData 0 (Parsed sampleFile) settingsStore)))
       = Some (Some (JNum 60), Some (JNum 9), Some (JBool False), None)
   \<and> settingsItem (snd (importData 0 (Parsed (sampleFile\<lparr>file_settings := None\<rparr>)) settingsStore))
       = settingsItem settingsStore
   \<and> map log_id (loadLogs (snd (importData 0 (Parsed sampleFile) settingsStore)))
       = [''a'', ''b'', ''c'']"
  using importData_contract [of "sampleFile\<lparr>file_logs := LogsAbsent\<rparr>" 0 sampleStore "[]"]
    importData_contract [of "sampleFile\<lparr>file_logs := LogsNotArray\<rparr>" 0 sampleStore "[]"]
    importData_contract [of sampleFile 0 sampleStore
      "[sampleLog ''b'' 999 9 (Some ''night'') (Some 1) None None,
        sampleLog ''c'' 300 2 (Some ''afternoon'') (Some 12) (Some 5) (Some 5)]"]
    importData_contract [of sampleFile 0 settingsStore
      "[sampleLog ''b'' 999 9 (Some ''night'') (Some 1) None None,
        sampleLog ''c'' 300 2 (Some ''afternoon'') (Some 12) (Some 5) (Some 5)]"]
    importData_contract [of "sampleFile\<lparr>file_settings := None\<rparr>" 0 settingsStore
      "[sampleLog ''b'' 999 9 (Some ''night'') (Some 1) None None,
        sampleLog ''c'' 300 2 (Some ''afternoon'') (Some 12) (Some 5) (Some 5)]"]
  by (simp add: sampleFile_def sampleStore_def settingsStore_def loadLogs_def sampleLog_def
      Let_def DEFAULT_SETTINGS_def)


text \<open>
  When the medium takes the logs and then refuses the settings, the import is rejected
  with the merged logs already stored.
\<close>

lemma importData_settings_refused:
  assumes "file_logs d = LogsArray imported" and "file_settings d = Some given"
    and "\<not> rejectsWrites st" and "rejectsSettingsWrites st"
  shows "importData tzo (Parsed d) st =
     (Inl (Error ''Failed to save settings''),
      st\<lparr>logsItem := Some (loadLogs st
           @ filter (\<lambda>l. log_id l \<notin> log_id ` set (loadLogs st)) imported)\<rparr>)"
  using assms by (simp add: importData_def importLogs_settings_refused)

subsection \<open>Uniqueness of ids\<close>

text \<open>
  Two generated ids are equal only if their clock readings are: the decimal digits of a
  number determine it and none of them is a dash. So an id generated at a clock reading
  later than those of all stored ids is not in the store.
\<close>

lemma digitChar_inj:
  assumes "n < 10" and "m < 10" and "digitChar n = digitChar m"
  shows "n = m"
proof -
  have "distinct ''0123456789''" and "length ''0123456789'' = 10"
    by simp_all
  then show ?thesis
    using assms unfolding digitChar_def by (metis nth_eq_iff_index_eq)
qed

lemma digitChar_not_dash:
  assumes "n < 10"
  shows "digitChar n \<noteq> CHR ''-''"
proof -
  have "\<forall>ch \<in> set ''0123456789''. ch \<noteq> CHR ''-''" and "length ''0123456789'' = 10"
    by simp_all
  then show ?thesis
    using assms unfolding digitChar_def by (metis nth_mem)
qed

lemma digits_nonempty: "digits n \<noteq> []"
  by (subst digits.simps) simp

lemma digits_inj: "digits n = digits m \<Longrightarrow> n = m"
proof (induction n arbitrary: m rule: digits.induct)
  case (1 n)
  show ?case
  proof (cases "n < 10")
    case True
    then have n: "digits n = [digitChar n]"
      by (subst digits.simps) simp
    show ?thesis
    proof (cases "m < 10")
      case m: True
      then have "digits m = [digitChar m]"
        by (subst digits.simps) simp
      then show ?thesis
        using n "1.prems" True m digitChar_inj by simp
    next
      case False
      then have "digits m = digits (m div 10) @ [digitChar (m mod 10)]"
        by (subst digits.simps) simp
      then show ?thesis
        using n "1.prems" digits_nonempty [of "m div 10"] by (cases "digits (m div 10)") simp_all
    qed
  next
    case False
    then have n: "digits n = digits (n div 10) @ [digitChar (n mod 10)]"
      by (subst digits.simps) simp
    show ?thesis
    proof (cases "m < 10")
      case True
      then have "digits m = [digitChar m]"
        by (subst digits.simps) simp
      then show ?thesis
        using n "1.prems" digits_nonempty [of "n div 10"] by (cases "digits (n div 10)") simp_all
    next
      case m: False
      then have "digits m = digits (m div 10) @ [digitChar (m mod 10)]"
        by (subst digits.simps) simp
      then have eq: "digits (n div 10) = digits (m div 10)"
        and last: "digitChar (n mod 10) = digitChar (m mod 10)"
        using n "1.prems" by simp_all
      have "n div 10 = m div 10"
        using "1.IH" [OF False eq] .
      moreover have "n mod 10 = m mod 10"
        using last by (intro digitChar_inj) simp_all
      ultimately show ?thesis
        by (metis div_mult_mod_eq)
    qed
  qed
qed

lemma digits_no_dash: "CHR ''-'' \<notin> set (digits n)"
proof (induction n rule: digits.induct)
  case (1 n)
  show ?case
  proof (cases "n < 10")
    case True
    then show ?thesis
      using digitChar_not_dash [of n] by (subst digits.simps) auto
  next
    case False
    then show ?thesis
      using 1 digitChar_not_dash [of "n mod 10"] by (subst digits.simps) auto
  qed
qed

lemma generateId_clock:
  assumes "0 \<le> c" and "0 \<le> c'" and "generateId c s = generateId c' s'"
  shows "c = c'"
proof -
  have split: "takeWhile (\<lambda>ch. ch \<noteq> CHR ''-'') (digits n @ CHR ''-'' # t) = digits n" for n t
    using digits_no_dash [of n] by (subst takeWhile_append2) auto
  have "digits (nat c) @ CHR ''-'' # s = digits (nat c') @ CHR ''-'' # s'"
    using assms by (simp add: generateId_def decimal_def)
  then have "digits (nat c) = digits (nat c')"
    using split [of "nat c" s] split [of "nat c'" s'] by simp
  then have "nat c = nat c'"
    by (rule digits_inj)
  then show ?thesis
    using assms by simp
qed

lemma generateId_fresh:
  assumes "0 \<le> c"
    and "\<forall>i \<in> log_id ` set (loadLogs st). \<exists>c' s'. 0 \<le> c' \<and> c' < c \<and> i = generateId c' s'"
  shows "generateId c s \<notin> log_id ` set (loadLogs st)"
proof
  assume "generateId c s \<in> log_id ` set (loadLogs st)"
  then obtain c' s' where "0 \<le> c'" "c' < c" "generateId c s = generateId c' s'"
    using assms(2) by blast
  then show False
    using generateId_clock [OF assms(1), of c' s s'] by simp
qed

lemma addLog_store:
  "loadLogs (snd (addLog newId stamp d st)) = loadLogs st
   \<or> (\<exists>r. log_id r = newId \<and> loadLogs (snd (addLog newId stamp d st)) = loadLogs st @ [r])"
  by (cases "rejectsWrites st") (simp_all add: addLog_def Let_def saveLogs_def)

lemma addLog_unique:
  assumes "uniqueIds st" and "newId \<notin> log_id ` set (loadLogs st)"
  shows "uniqueIds (snd (addLog newId stamp d st))"
  using addLog_store [of newId stamp d st] assms
  by (auto simp: uniqueIds_def)

lemma mergeLog_id:
  assumes "upd_id u = None \<or> upd_id u = Some (log_id l)"
  shows "log_id (mergeLog l u) = log_id l"
  using assms by (auto simp: mergeLog_def override_def)

lemma updateLog_ids:
  assumes "upd_id u = None \<or> upd_id u = Some logId"
  shows "map log_id (loadLogs (snd (updateLog logId u st))) = map log_id (loadLogs st)"
proof (cases "logId \<in> log_id ` set (loadLogs st)")
  case False
  then show ?thesis
    by (simp add: updateLog_absent)
next
  case True
  note p = updateLog_present [OF True]
  have "log_id (mergeLog (loadLogs st ! length (takeWhile (\<lambda>l. log_id l \<noteq> logId) (loadLogs st))) u)
      = log_id (loadLogs st ! length (takeWhile (\<lambda>l. log_id l \<noteq> logId) (loadLogs st)))"
    using assms p(2) by (intro mergeLog_id) simp
  moreover have "(map log_id xs)[i := log_id (xs ! i)] = map log_id xs" for xs :: "log list" and i
    by (metis list_update_id map_update)
  ultimately show ?thesis
    by (simp add: p(3) map_update)
qed

lemma updateLog_returns_id:
  assumes "upd_id u = None \<or> upd_id u = Some logId"
    and "updateLog logId u st = (Inr r, st')"
  shows "log_id r = logId"
proof (cases "logId \<in> log_id ` set (loadLogs st)")
  case False
  then show ?thesis
    using assms(2) by (simp add: updateLog_absent)
next
  case True
  note p = updateLog_present [OF True]
  have "r = mergeLog (loadLogs st ! length (takeWhile (\<lambda>l. log_id l \<noteq> logId) (loadLogs st))) u"
    using assms(2) by (simp add: p(3) split: if_splits)
  then show ?thesis
    using assms(1) p(2) mergeLog_id [of u "loadLogs st ! length (takeWhile (\<lambda>l. log_id l \<noteq> logId) (loadLogs st))"]
    by simp
qed

lemma importData_store:
  "loadLogs (snd (importData tzo fl st)) = loadLogs st
   \<or> (\<exists>d imported. fl = Parsed d \<and> file_logs d = LogsArray imported
        \<and> loadLogs (snd (importData tzo fl st))
           = loadLogs st @ filter (\<lambda>l. log_id l \<notin> log_id ` set (loadLogs st)) imported)"
proof (cases fl)
  case (Parsed d)
  show ?thesis
  proof (cases "file_logs d")
    case (LogsArray imported)
    show ?thesis
    proof (cases "rejectsWrites st")
      case True
      then show ?thesis
        using Parsed LogsArray by (simp add: importData_def importLogs_rejected)
    next
      case False
      have ld: "loadLogs (st\<lparr>logsItem := Some ls, settingsItem := x\<rparr>) = ls" for ls x
        by (simp add: loadLogs_def)
      show ?thesis
      proof (cases "file_settings d = None \<or> \<not> rejectsSettingsWrites st")
        case True
        then show ?thesis
          using Parsed LogsArray ld by (simp add: importData_def importLogs_accepted [OF False])
      next
        case False
        then obtain s where "file_settings d = Some s" and "rejectsSettingsWrites st"
          by auto
        then show ?thesis
          using Parsed LogsArray \<open>\<not> rejectsWrites st\<close>
          by (simp add: importData_def importLogs_settings_refused)
      qed
    qed
  qed (simp_all add: Parsed importData_def)
qed (simp_all add: importData_def)

lemma applyOp_unique:
  assumes "uniqueIds st" and "opAllowed st op"
  shows "uniqueIds (applyOp op st)"
proof (cases op)
  case (Append clock suffix stamp d)
  then show ?thesis
    using assms by (simp add: applyOp_def addLog_unique)
next
  case (Amend logId u)
  then show ?thesis
    using assms by (simp add: applyOp_def uniqueIds_def updateLog_ids)
next
  case (Import tzo fl)
  from importData_store [of tzo fl st] show ?thesis
  proof
    assume "loadLogs (snd (importData tzo fl st)) = loadLogs st"
    then show ?thesis
      using assms(1) Import by (simp add: applyOp_def uniqueIds_def)
  next
    assume "\<exists>d imported. fl = Parsed d \<and> file_logs d = LogsArray imported
        \<and> loadLogs (snd (importData tzo fl st))
           = loadLogs st @ filter (\<lambda>l. log_id l \<notin> log_id ` set (loadLogs st)) imported"
    then obtain d imported where f: "fl = Parsed d" "file_logs d = LogsArray imported"
      and l: "loadLogs (snd (importData tzo fl st))
           = loadLogs st @ filter (\<lambda>l. log_id l \<notin> log_id ` set (loadLogs st)) imported"
      by blast
    have "distinct (map log_id (filter (\<lambda>l. log_id l \<notin> log_id ` set (loadLogs st)) imported))"
      using assms(2) Import f by simp
    moreover have "set (map log_id (loadLogs st))
        \<inter> set (map log_id (filter (\<lambda>l. log_id l \<notin> log_id ` set (loadLogs st)) imported)) = {}"
      by (auto simp: image_iff)
    ultimately show ?thesis
      using assms(1) Import l by (simp add: applyOp_def uniqueIds_def del: set_map)
  qed
qed

lemma applyOps_unique:
  "uniqueIds st \<Longrightarrow> opsAllowed st ops \<Longrightarrow> uniqueIds (fold applyOp ops st)"
  by (induction ops arbitrary: st) (simp_all add: applyOp_unique)

text \<open>
  C5, as amended. Starting from a store whose ids are unique, ids stay unique along every
  sequence of appends, amends and imports in which each append generates an id that is
  not in the store, each amend's updates do not name \<open>id\<close> (or name the id they
  target), and the records of each imported file that are new to the store have distinct
  ids. Such an amend leaves the id of every record, the targeted one included, as it was,
  and the record it returns has the id it was called with. An append generates an id that
  is not in the store whenever every stored id was generated at an earlier clock reading.
\<close>

theorem ids_unique_when_ops_allowed:
  "(uniqueIds st \<and> opsAllowed st ops \<longrightarrow> uniqueIds (fold applyOp ops st))
   \<and> ((upd_id u = None \<or> upd_id u = Some logId) \<longrightarrow>
        map log_id (loadLogs (snd (updateLog logId u st))) = map log_id (loadLogs st)
        \<and> (\<forall>r st'. updateLog logId u st = (Inr r, st') \<longrightarrow> log_id r = logId))
   \<and> (0 \<le> c
        \<and> (\<forall>i \<in> log_id ` set (loadLogs st).
              \<exists>c' s'. 0 \<le> c' \<and> c' < c \<and> i = generateId c' s') \<longrightarrow>
        opAllowed st (Append c s stamp d))"
proof -
  have fresh: "0 \<le> c
        \<and> (\<forall>i \<in> log_id ` set (loadLogs st).
              \<exists>c' s'. 0 \<le> c' \<and> c' < c \<and> i = generateId c' s') \<longrightarrow>
        opAllowed st (Append c s stamp d)"
    using generateId_fresh [of c st s] by simp
  with applyOps_unique updateLog_ids updateLog_returns_id show ?thesis
    by blast
qed

text \<open>
  The claim as stated fails: an amend whose updates name another record's id gives two
  records that id (and changes the id of the record it targets), a file that holds a
  new id twice is imported with both records, and two appends whose \<open>generateId()\<close>
  reads the same millisecond and makes the same random suffix store the same id twice.
\<close>

theorem ids_unique_counterexample:
  "uniqueIds sampleStore
   \<and> \<not> uniqueIds (fold applyOp [Amend ''a'' (renameTo ''b'')] sampleStore)
   \<and> map log_id (loadLogs (fold applyOp [Amend ''a'' (renameTo ''b'')] sampleStore)) = [''b'', ''b'']
   \<and> map_sum id log_id (fst (updateLog ''a'' (renameTo ''b'') sampleStore)) = Inr ''b''
   \<and> \<not> uniqueIds (fold applyOp [Import 0 (Parsed twiceFile)] sampleStore)
   \<and> \<not> uniqueIds (fold applyOp
        [Append 1730000000000 ''k3j9x2m1q'' 1730000000000
           (logData.truncate (sampleLog ''x'' 0 3 None None None None)),
         Append 1730000000000 ''k3j9x2m1q'' 1730000000000
           (logData.truncate (sampleLog ''x'' 0 3 None None None None))] sampleStore)
   \<and> map log_id (loadLogs (fold applyOp
        [Append 1730000000000 ''k3j9x2m1q'' 1730000000000
           (logData.truncate (sampleLog ''x'' 0 3 None None None None)),
         Append 1730000000000 ''k3j9x2m1q'' 1730000000000
           (logData.truncate (sampleLog ''x'' 0 3 None None None None))] sampleStore))
       = [''a'', ''b'', ''1730000000000-k3j9x2m1q'', ''1730000000000-k3j9x2m1q'']"
  by (simp add: uniqueIds_def applyOp_def updateLog_def importData_def importLogs_def
      addLog_def saveLogs_def loadLogs_def sampleStore_def sampleLog_def renameTo_def
      checkInUpdates_def twiceFile_def mergeLog_def override_def Let_def logData.truncate_def
      generateId_def decimal_def digits.simps digitChar_def)

theorem ids_unique_when_ops_allowed_witness:
  "uniqueIds (fold applyOp
      [Append 500 ''n1'' 500 (logData.truncate (sampleLog ''x'' 0 3 None None None None)),
       Amend ''a'' (checkInUpdates 6 4 None None),
       Import 0 (Parsed sampleFile)] sampleStore)
   \<and> map log_id (loadLogs (snd (updateLog ''a'' (checkInUpdates 6 4 None None) sampleStore)))
       = [''a'', ''b'']
   \<and> opAllowed generatedStore
        (Append 200 ''ab'' 200 (logData.truncate (sampleLog ''x'' 0 3 None None None None)))"
proof -
  have "\<exists>c' s'. 0 \<le> c' \<and> c' < (200::int) \<and> generateId 100 ''ab'' = generateId c' s'"
    by (rule exI [of _ 100], rule exI [of _ "''ab''"]) simp
  moreover have "\<exists>c' s'. 0 \<le> c' \<and> c' < (200::int) \<and> generateId 150 ''cd'' = generateId c' s'"
    by (rule exI [of _ 150], rule exI [of _ "''cd''"]) simp
  ultimately have earlier: "(0::int) \<le> 200
      \<and> (\<forall>i \<in> log_id ` set (loadLogs generatedStore).
            \<exists>c' s'. 0 \<le> c' \<and> c' < 200 \<and> i = generateId c' s')"
    by (simp add: generatedStore_def loadLogs_def sampleLog_def)
  have allowed: "uniqueIds sampleStore \<and> opsAllowed sampleStore
      [Append 500 ''n1'' 500 (logData.truncate (sampleLog ''x'' 0 3 None None None None)),
       Amend ''a'' (checkInUpdates 6 4 None None),
       Import 0 (Parsed sampleFile)]"
    by (simp add: uniqueIds_def applyOp_def updateLog_def addLog_def saveLogs_def loadLogs_def
        sampleStore_def sampleLog_def checkInUpdates_def sampleFile_def mergeLog_def
        override_def Let_def logData.truncate_def generateId_def decimal_def digits.simps
        digitChar_def)
  note seq = ids_unique_when_ops_allowed [where st = sampleStore
      and ops = "[Append 500 ''n1'' 500 (logData.truncate (sampleLog ''x'' 0 3 None None None None)),
          Amend ''a'' (checkInUpdates 6 4 None None),
          Import 0 (Parsed sampleFile)]"
      and u = "checkInUpdates 6 4 None None" and logId = "''a''"]
  note app = ids_unique_when_ops_allowed [where st = generatedStore and c = 200
      and s = "''ab''" and stamp = 200
      and d = "logData.truncate (sampleLog ''x'' 0 3 None None None None)"]
  have a: "uniqueIds (fold applyOp
      [Append 500 ''n1'' 500 (logData.truncate (sampleLog ''x'' 0 3 None None None None)),
       Amend ''a'' (checkInUpdates 6 4 None None),
       Import 0 (Parsed sampleFile)] sampleStore)"
    using seq allowed by blast
  have b: "map log_id (loadLogs (snd (updateLog ''a'' (checkInUpdates 6 4 None None) sampleStore)))
       = [''a'', ''b'']"
    using seq by (simp add: checkInUpdates_def sampleStore_def loadLogs_def sampleLog_def)
  have c: "opAllowed generatedStore
        (Append 200 ''ab'' 200 (logData.truncate (sampleLog ''x'' 0 3 None None None None)))"
    using app earlier by blast
  from a b c show ?thesis
    by blast
qed

subsection \<open>Creating records\<close>

lemma updateLog_map_field:
  assumes "\<And>l. f (mergeLog l u) = f l"
  shows "map f (loadLogs (snd (updateLog logId u st))) = map f (loadLogs st)"
proof (cases "logId \<in> log_id ` set (loadLogs st)")
  case False
  then show ?thesis
    by (simp add: updateLog_absent)
next
  case True
  note p = updateLog_present [OF True]
  have "(map f xs)[i := f (mergeLog (xs ! i) u)] = map f xs" for xs :: "log list" and i
    unfolding assms by (metis list_update_id map_update)
  then show ?thesis
    by (simp add: p(3) map_update)
qed

lemma addLog_accepted:
  assumes "\<not> rejectsWrites st"
  shows "addLog newId stamp d st =
     (Inr \<lparr>date = date d, timeOfDay = timeOfDay d, source = source d, unitType = unitType d,
           amount = amount d, estimatedMg = estimatedMg d, reason = reason d,
           healthEffects = healthEffects d, focusLevel = focusLevel d,
           anxietyLevel = anxietyLevel d, clearThinking = clearThinking d,
           log_notes = log_notes d, log_id = newId, timestamp = stamp\<rparr>,
      st\<lparr>logsItem := Some (loadLogs st @
          [\<lparr>date = date d, timeOfDay = timeOfDay d, source = source d, unitType = unitType d,
            amount = amount d, estimatedMg = estimatedMg d, reason = reason d,
            healthEffects = healthEffects d, focusLevel = focusLevel d,
            anxietyLevel = anxietyLevel d, clearThinking = clearThinking d,
            log_notes = log_notes d, log_id = newId, timestamp = stamp\<rparr>])\<rparr>)"
  using assms by (simp add: addLog_def Let_def saveLogs_def)

lemma addLog_creates:
  assumes "\<not> rejectsWrites st"
  shows "\<exists>r. addLog newId stamp d st = (Inr r, st\<lparr>logsItem := Some (loadLogs st @ [r])\<rparr>)
        \<and> date r = date d \<and> timeOfDay r = timeOfDay d
        \<and> log_id r = newId \<and> timestamp r = stamp"
  by (simp add: addLog_accepted [OF assms])

lemma confirmWizard_creates:
  assumes "\<not> rejectsWrites st"
  shows "\<exists>r. confirmWizard tza now newId stamp wd st
          = (Inr (), st\<lparr>logsItem := Some (loadLogs st @ [r])\<rparr>)
        \<and> date r = isoDate now \<and> timeOfDay r = Some (hourCategory (getHours tza now))
        \<and> log_id r = newId \<and> timestamp r = stamp"
proof -
  define d where "d = \<lparr>date = isoDate now, timeOfDay = Some (getTimeOfDay tza now),
      source = w_source wd,
      unitType = (if w_source wd = Some ''Vape'' then ''puffs''
                  else if w_source wd = Some ''Cigarettes'' then ''pieces'' else ''pieces''),
      amount = w_quantity wd, estimatedMg = w_estimatedMg wd,
      reason = (if w_reason wd = Some ''Other'' then w_otherReason wd else w_reason wd),
      healthEffects = w_healthEffects wd, focusLevel = None, anxietyLevel = None,
      clearThinking = None, log_notes = None\<rparr>"
  obtain r where r: "addLog newId stamp d st
        = (Inr r, st\<lparr>logsItem := Some (loadLogs st @ [r])\<rparr>)"
      "date r = date d" "timeOfDay r = timeOfDay d" "log_id r = newId" "timestamp r = stamp"
    using addLog_creates [OF assms] by blast
  have "confirmWizard tza now newId stamp wd st
      = (Inr (), st\<lparr>logsItem := Some (loadLogs st @ [r])\<rparr>)"
    unfolding confirmWizard_def Let_def d_def [symmetric] by (simp add: r(1))
  moreover have "date r = isoDate now" "timeOfDay r = Some (hourCategory (getHours tza now))"
    using r(2,3) by (simp_all add: d_def getTimeOfDay_def)
  ultimately show ?thesis
    using r(4,5) by blast
qed

lemma checkIn_creates:
  assumes "\<not> rejectsWrites st" and "getMostRecentLogToday now0 st = None"
  shows "\<exists>r. submitCognitiveCheckIn tza now0 now newId stamp fl al ct nt st
          = (Inr (), st\<lparr>logsItem := Some (loadLogs st @ [r])\<rparr>)
        \<and> date r = isoDate now \<and> timeOfDay r = Some (hourCategory (getHours tza now))
        \<and> log_id r = newId \<and> timestamp r = stamp"
proof -
  define d where "d = \<lparr>date = isoDate now, timeOfDay = Some (getTimeOfDay tza now),
      source = Some ''None'', unitType = ''other'', amount = Some 0, estimatedMg = Some 0,
      reason = Some ''Cognitive check-in only'', healthEffects = [],
      focusLevel = Some fl, anxietyLevel = Some al, clearThinking = ct, log_notes = nt\<rparr>"
  obtain r where r: "addLog newId stamp d st
        = (Inr r, st\<lparr>logsItem := Some (loadLogs st @ [r])\<rparr>)"
      "date r = date d" "timeOfDay r = timeOfDay d" "log_id r = newId" "timestamp r = stamp"
    using addLog_creates [OF assms(1)] by blast
  have "submitCognitiveCheckIn tza now0 now newId stamp fl al ct nt st
      = (Inr (), st\<lparr>logsItem := Some (loadLogs st @ [r])\<rparr>)"
    unfolding submitCognitiveCheckIn_def Let_def d_def [symmetric] by (simp add: r(1) assms(2))
  moreover have "date r = isoDate now" "timeOfDay r = Some (hourCategory (getHours tza now))"
    using r(2,3) by (simp_all add: d_def getTimeOfDay_def)
  ultimately show ?thesis
    using r(4,5) by blast
qed

lemma checkIn_amends:
  assumes "getMostRecentLogToday now0 st = Some recent"
  shows "loadLogs (snd (submitCognitiveCheckIn tza now0 now newId stamp fl al ct nt st))
      = loadLogs (snd (updateLog (log_id recent) (checkInUpdates fl al ct nt) st))"
  by (simp add: submitCognitiveCheckIn_def assms split: prod.splits sum.splits)

text \<open>
  C9, as amended. A record created by the intake wizard, or by a check-in that finds no
  record of today, is appended with \<open>date\<close> the UTC calendar date of the creation
  instant (the date part of \<open>toISOString()\<close>) and \<open>timeOfDay\<close> the category of the
  local hour of that instant; both are stored in the record. A check-in that amends an
  existing record instead leaves the \<open>date\<close>, \<open>timeOfDay\<close> and \<open>timestamp\<close> of
  every stored record as they are.
\<close>

theorem creation_date_and_timeOfDay:
  "(\<not> rejectsWrites st \<longrightarrow>
      (\<exists>r. confirmWizard tza now newId stamp wd st
          = (Inr (), st\<lparr>logsItem := Some (loadLogs st @ [r])\<rparr>)
        \<and> date r = isoDate now \<and> timeOfDay r = Some (hourCategory (getHours tza now))
        \<and> log_id r = newId \<and> timestamp r = stamp))
   \<and> (\<not> rejectsWrites st \<and> getMostRecentLogToday now0 st = None \<longrightarrow>
      (\<exists>r. submitCognitiveCheckIn tza now0 now newId stamp fl al ct nt st
          = (Inr (), st\<lparr>logsItem := Some (loadLogs st @ [r])\<rparr>)
        \<and> date r = isoDate now \<and> timeOfDay r = Some (hourCategory (getHours tza now))
        \<and> log_id r = newId \<and> timestamp r = stamp))
   \<and> (getMostRecentLogToday now0 st \<noteq> None \<longrightarrow>
      map date (loadLogs (snd (submitCognitiveCheckIn tza now0 now newId stamp fl al ct nt st)))
        = map date (loadLogs st)
      \<and> map timeOfDay (loadLogs (snd (submitCognitiveCheckIn tza now0 now newId stamp fl al ct nt st)))
        = map timeOfDay (loadLogs st)
      \<and> map timestamp (loadLogs (snd (submitCognitiveCheckIn tza now0 now newId stamp fl al ct nt st)))
        = map timestamp (loadLogs st))
   \<and> isoDate now = now div msPerDay
   \<and> getHours tza now = ((now + tza now True) div msPerHour) mod 24"
proof -
  have keep: "date (mergeLog l (checkInUpdates fl al ct nt)) = date l"
    "timeOfDay (mergeLog l (checkInUpdates fl al ct nt)) = timeOfDay l"
    "timestamp (mergeLog l (checkInUpdates fl al ct nt)) = timestamp l" for l
    by (simp_all add: mergeLog_def checkInUpdates_def override_def)
  have amend: "getMostRecentLogToday now0 st \<noteq> None \<longrightarrow>
      map date (loadLogs (snd (submitCognitiveCheckIn tza now0 now newId stamp fl al ct nt st)))
        = map date (loadLogs st)
      \<and> map timeOfDay (loadLogs (snd (submitCognitiveCheckIn tza now0 now newId stamp fl al ct nt st)))
        = map timeOfDay (loadLogs st)
      \<and> map timestamp (loadLogs (snd (submitCognitiveCheckIn tza now0 now newId stamp fl al ct nt st)))
        = map timestamp (loadLogs st)"
    using keep by (auto simp: checkIn_amends updateLog_map_field)
  have clock: "isoDate now = now div msPerDay
      \<and> getHours tza now = ((now + tza now True) div msPerHour) mod 24"
    by (simp add: isoDate_def getHours_def LocalTime_def)
  from confirmWizard_creates checkIn_creates amend clock show ?thesis
    by blast
qed

text \<open>
  The claim as stated fails on the date: at 2024-11-04T01:00Z in a zone five hours behind
  UTC the local date is 3 November (day 20030, 20:00 local, an evening), and the record is
  stored with 4 November (day 20031).
\<close>

theorem creation_date_counterexample:
  "map date (loadLogs (snd (confirmWizard (fixedZone (- 5 * msPerHour))
        (20031 * msPerDay + 1 * msPerHour) ''n1'' (20031 * msPerDay + 1 * msPerHour)
        sampleWizard sampleStore))) = [1, 1, 20031]
   \<and> localDate (fixedZone (- 5 * msPerHour)) (20031 * msPerDay + 1 * msPerHour) = 20030
   \<and> getHours (fixedZone (- 5 * msPerHour)) (20031 * msPerDay + 1 * msPerHour) = 20"
  by (simp add: confirmWizard_def addLog_def saveLogs_def loadLogs_def sampleStore_def
      sampleLog_def Let_def isoDate_def localDate_def LocalTime_def fixedZone_def getHours_def
      msPerDay_def msPerHour_def)

theorem creation_date_and_timeOfDay_witness:
  "map date (loadLogs (snd (confirmWizard (fixedZone (- 5 * msPerHour))
        (20031 * msPerDay + 1 * msPerHour) ''n1'' (20031 * msPerDay + 2 * msPerHour)
        sampleWizard sampleStore))) = [1, 1, 20031]
   \<and> map timeOfDay (loadLogs (snd (confirmWizard (fixedZone (- 5 * msPerHour))
        (20031 * msPerDay + 1 * msPerHour) ''n1'' (20031 * msPerDay + 2 * msPerHour)
        sampleWizard sampleStore))) = [Some ''morning'', Some ''evening'', Some ''evening'']
   \<and> map date (loadLogs (snd (submitCognitiveCheckIn (fixedZone (- 5 * msPerHour))
        (20031 * msPerDay) (20031 * msPerDay + 1 * msPerHour) ''n1''
        (20031 * msPerDay + 2 * msPerHour) 7 3 None None sampleStore))) = [1, 1, 20031]
   \<and> map date (loadLogs (snd (submitCognitiveCheckIn (fixedZone (- 5 * msPerHour))
        (1 * msPerDay + 5) (20031 * msPerDay + 1 * msPerHour) ''n1''
        (20031 * msPerDay + 2 * msPerHour) 7 3 None None sampleStore))) = [1, 1]"
  using creation_date_and_timeOfDay [of sampleStore "fixedZone (- 5 * msPerHour)"
      "20031 * msPerDay + 1 * msPerHour" "''n1''" "20031 * msPerDay + 2 * msPerHour"
      sampleWizard "20031 * msPerDay" 7 3 None None]
    creation_date_and_timeOfDay [of sampleStore "fixedZone (- 5 * msPerHour)"
      "20031 * msPerDay + 1 * msPerHour" "''n1''" "20031 * msPerDay + 2 * msPerHour"
      sampleWizard "1 * msPerDay + 5" 7 3 None None]
  by (auto simp: getMostRecentLogToday_def loadLogs_def sampleStore_def sampleLog_def Let_def
      isoDate_def fixedZone_def msPerDay_def msPerHour_def hourCategory_def)


subsection \<open>Streak\<close>

lemma setDatePrev_fixedZone: "setDatePrev (fixedZone off) t = t - msPerDay"
  by (simp add: setDatePrev_def UTC_def LocalTime_def fixedZone_def)

lemma isoDate_dateOfIso: "isoDate (dateOfIso d) = d"
  by (simp add: isoDate_def dateOfIso_def msPerDay_def)

lemma dateOfIso_prev: "dateOfIso d - msPerDay = dateOfIso (d - 1)"
  by (simp add: dateOfIso_def algebra_simps)

lemma streakLoop_fixedZone:
  assumes "\<forall>i<k. d - int i \<in> set ds" and "d - int k \<notin> set ds"
  shows "streakLoop (fixedZone off) ds (dateOfIso d) n = Some (n + k)"
  using assms
proof (induction k arbitrary: d n)
  case 0
  then show ?case
    by (subst streakLoop.simps) (simp add: isoDate_dateOfIso)
next
  case (Suc k)
  from Suc.prems(1) have here: "d \<in> set ds"
    by (metis of_nat_0 diff_zero zero_less_Suc)
  have run: "\<forall>i<k. (d - 1) - int i \<in> set ds"
  proof (intro allI impI)
    fix i assume "i < k"
    then have "d - int (Suc i) \<in> set ds"
      using Suc.prems(1) by (meson Suc_less_eq)
    then show "(d - 1) - int i \<in> set ds"
      by (simp add: algebra_simps)
  qed
  have gap: "(d - 1) - int k \<notin> set ds"
    using Suc.prems(2) by (simp add: algebra_simps)
  have "streakLoop (fixedZone off) ds (dateOfIso d) n
      = streakLoop (fixedZone off) ds (dateOfIso (d - 1)) (n + 1)"
    by (subst streakLoop.simps)
      (simp add: isoDate_dateOfIso here setDatePrev_fixedZone dateOfIso_prev)
  also have "\<dots> = Some (n + 1 + k)"
    by (rule Suc.IH [OF run gap])
  finally show ?case
    by simp
qed

lemma first_gap_exists: "\<exists>k. (\<forall>i<k. d - int i \<in> set ds) \<and> d - int k \<notin> set ds"
proof -
  have "\<exists>k. d - int k \<notin> set ds"
  proof (rule ccontr)
    assume "\<not> (\<exists>k. d - int k \<notin> set ds)"
    then have "range (\<lambda>k. d - int k) \<subseteq> set ds"
      by auto
    then have "finite (range (\<lambda>k. d - int k))"
      by (rule finite_subset) simp
    moreover have "inj (\<lambda>k. d - int k)"
      by (simp add: inj_on_def)
    ultimately show False
      using finite_imageD infinite_UNIV_nat by blast
  qed
  then obtain k where k: "d - int k \<notin> set ds" and least: "\<forall>i<k. \<not> d - int i \<notin> set ds"
    using exists_least_iff [of "\<lambda>k. d - int k \<notin> set ds"] by blast
  then show ?thesis
    by blast
qed

text \<open>
  In a zone whose offset never changes the loop ends, and the streak is the length of the
  run of consecutive days, from today backwards, that have a record.
\<close>

lemma calculateStreak_fixedZone:
  "\<exists>n. calculateStreak (fixedZone off) now st = Some n
     \<and> (\<forall>i<n. isoDate now - int i \<in> date ` set (loadLogs st))
     \<and> isoDate now - int n \<notin> date ` set (loadLogs st)"
proof (cases "loadLogs st = []")
  case True
  then show ?thesis
    by (simp add: calculateStreak_def)
next
  case False
  obtain k where k: "\<forall>i<k. isoDate now - int i \<in> set (remdups (map date (loadLogs st)))"
      "isoDate now - int k \<notin> set (remdups (map date (loadLogs st)))"
    using first_gap_exists by blast
  have "calculateStreak (fixedZone off) now st = Some k"
    using False streakLoop_fixedZone [OF k, of off 0] by (simp add: calculateStreak_def Let_def)
  then show ?thesis
    using k by auto
qed

text \<open>
  In every zone, a store with no record dated today has streak 0.
\<close>

lemma calculateStreak_no_record_today:
  assumes "isoDate now \<notin> date ` set (loadLogs st)"
  shows "calculateStreak tza now st = Some 0"
proof -
  have "streakLoop tza (remdups (map date (loadLogs st))) (dateOfIso (isoDate now)) 0 = Some 0"
    using assms by (subst streakLoop.simps) (simp add: isoDate_dateOfIso)
  then show ?thesis
    by (simp add: calculateStreak_def Let_def)
qed

text \<open>
  C7 on the code. The instant is 2024-11-04T15:00Z, ten in the morning in New York, and the
  store holds one record dated 2024-11-04 (day 20031, today) and one dated 2024-11-03
  (day 20030, yesterday), none before. The claim gives the streak 2. The loop starts at
  midnight UTC of today, 19:00 local on 3 November; \<open>setDate(getDate() - 1)\<close> moves
  to 19:00 local on 2 November, which is 23:00 UTC of 2 November because daylight saving
  time still held then; the date read next is 2 November, 3 November is never looked up,
  and the streak is 1. In a zone with a fixed offset the same call gives 2.
\<close>

theorem calculateStreak_skips_a_day:
  "calculateStreak easternAutumn2024 (20031 * msPerDay + 15 * msPerHour) novemberStore = Some 1
   \<and> map date (loadLogs novemberStore) = [20030, 20031]
   \<and> isoDate (20031 * msPerDay + 15 * msPerHour) = 20031
   \<and> calculateStreak (fixedZone (- 5 * msPerHour)) (20031 * msPerDay + 15 * msPerHour)
        novemberStore = Some 2"
  by (simp add: calculateStreak_def streakLoop.simps novemberStore_def loadLogs_def sampleLog_def
      Let_def isoDate_def dateOfIso_def setDatePrev_def UTC_def LocalTime_def
      easternAutumn2024_def fixedZone_def msPerDay_def msPerHour_def)


subsection \<open>Sweet-spot matrix\<close>

lemma fold_times:
  "fold (\<lambda>time m'. m'((lb, time) \<mapsto> c)) ts m
     = (\<lambda>(l, t). if l = lb \<and> t \<in> set ts then Some c else m (l, t))"
  by (induction ts arbitrary: m) (auto simp: fun_eq_iff)

lemma fold_buckets:
  "fold (\<lambda>bucket m. fold (\<lambda>time m'. m'((label bucket, time) \<mapsto> c)) ts m) bs m
     = (\<lambda>(l, t). if l \<in> set (map label bs) \<and> t \<in> set ts then Some c else m (l, t))"
  by (induction bs arbitrary: m) (auto simp: fold_times fun_eq_iff)

lemma initMatrix_matrixOf: "initMatrix = matrixOf []"
  unfolding initMatrix_def fold_buckets
  by (simp add: matrixOf_def cellOf_def presentLevels_def fun_eq_iff)

lemma findBucket_in: "findBucket mg = Some b \<Longrightarrow> label b \<in> set (map label doseBuckets)"
  by (auto simp: findBucket_def find_Some_iff)

lemma addToMatrix_matrixOf:
  assumes "truthy_str (timeOfDay l) \<longrightarrow> the (timeOfDay l) \<in> set timeBuckets"
  shows "addToMatrix (matrixOf pre) l = Inr (matrixOf (pre @ [l]))"
proof (cases "\<exists>lbl time. hitsCell lbl time l")
  case False
  then have same: "matrixOf (pre @ [l]) = matrixOf pre"
    by (auto simp: matrixOf_def cellOf_def fun_eq_iff)
  from False have "addToMatrix (matrixOf pre) l = Inr (matrixOf pre)"
    by (auto simp: addToMatrix_def hitsCell_def truthy_str_def split: option.splits)
  with same show ?thesis
    by simp
next
  case True
  then obtain lbl time where h: "hitsCell lbl time l"
    by blast
  then obtain b fl al x where x: "estimatedMg l = Some x"
    and b: "findBucket x = Some b" "label b = lbl"
    and lv: "focusLevel l = Some fl" "anxietyLevel l = Some al"
    and t: "timeOfDay l = Some time" "time \<noteq> []" and mg: "truthy_num (estimatedMg l)"
    by (auto simp: hitsCell_def truthy_num_def split: option.splits Option.bind_splits)
  have tin: "time \<in> set timeBuckets"
    using assms t by (simp add: truthy_str_def)
  have lin: "lbl \<in> set (map label doseBuckets)"
    using b findBucket_in by blast
  have only: "hitsCell lbl' time' l \<longleftrightarrow> lbl' = lbl \<and> time' = time" for lbl' time'
    using h b t x by (auto simp: hitsCell_def)
  have upd: "(matrixOf pre)((lbl, time) \<mapsto>
        \<lparr>focus = focus (cellOf lbl time pre) @ [fl], anxiety = anxiety (cellOf lbl time pre) @ [al],
         count = count (cellOf lbl time pre) + 1\<rparr>) = matrixOf (pre @ [l])"
    using tin lin lv by (auto simp: matrixOf_def cellOf_def fun_eq_iff only presentLevels_def)
  have "addToMatrix (matrixOf pre) l = Inr ((matrixOf pre)((lbl, time) \<mapsto>
        \<lparr>focus = focus (cellOf lbl time pre) @ [fl], anxiety = anxiety (cellOf lbl time pre) @ [al],
         count = count (cellOf lbl time pre) + 1\<rparr>))"
    using mg t b lv tin lin x by (simp add: addToMatrix_def truthy_str_def matrixOf_def)
  with upd show ?thesis
    by simp
qed

lemma populate_matrixOf:
  assumes "\<forall>l \<in> set ls. truthy_str (timeOfDay l) \<longrightarrow> the (timeOfDay l) \<in> set timeBuckets"
  shows "populate (matrixOf pre) ls = Inr (matrixOf (pre @ ls))"
  using assms
proof (induction ls arbitrary: pre)
  case Nil
  then show ?case by simp
next
  case (Cons l ls)
  have "addToMatrix (matrixOf pre) l = Inr (matrixOf (pre @ [l]))"
    using Cons.prems by (intro addToMatrix_matrixOf) simp
  moreover have "populate (matrixOf (pre @ [l])) ls = Inr (matrixOf ((pre @ [l]) @ ls))"
    using Cons.prems by (intro Cons.IH) simp
  ultimately show ?case
    by simp
qed

lemma cellResult_matrixOf:
  assumes "bucket \<in> set doseBuckets" and "time \<in> set timeBuckets"
  shows "cellResult (matrixOf ls) dIdx bucket tIdx time
      = Inr (cellOut (cellOf (label bucket) time ls) dIdx bucket tIdx)"
  using assms by (simp add: cellResult_def matrixOf_def cellOut_def)

lemma collect_Inr: "collect (map Inr xs) = Inr xs"
  by (induction xs) simp_all

lemma enumerate_snd_in: "(i, x) \<in> set (enumerate n xs) \<Longrightarrow> x \<in> set xs"
  by (auto simp: in_set_enumerate_eq)

lemma nth_concat_rows:
  assumes "\<forall>y \<in> set ys. length (f y) = w" and "i < length ys" and "j < w"
  shows "concat (map f ys) ! (w * i + j) = f (ys ! i) ! j"
  using assms
proof (induction ys arbitrary: i)
  case Nil
  then show ?case by simp
next
  case (Cons y ys)
  show ?case
  proof (cases i)
    case 0
    then show ?thesis
      using Cons.prems by (simp add: nth_append)
  next
    case (Suc k)
    have "concat (map f (y # ys)) ! (w * i + j) = concat (map f ys) ! (w * k + j)"
      using Cons.prems Suc by (simp add: nth_append)
    also have "\<dots> = f (ys ! k) ! j"
      using Cons.prems Suc by (intro Cons.IH) simp_all
    finally show ?thesis
      using Suc by simp
  qed
qed

lemma computeSweetSpotMatrix_cells:
  assumes "\<forall>l \<in> set logs. truthy_str (timeOfDay l) \<longrightarrow> the (timeOfDay l) \<in> set timeBuckets"
  shows "computeSweetSpotMatrix logs =
     Inr \<lparr>resultDoseBuckets = map label doseBuckets, resultTimeBuckets = timeLabels,
          cells = concat (map (\<lambda>(dIdx, bucket).
              map (\<lambda>(tIdx, time). cellOut (cellOf (label bucket) time logs) dIdx bucket tIdx)
                (enumerate 0 timeBuckets))
            (enumerate 0 doseBuckets))\<rparr>"
proof -
  have pop: "populate initMatrix logs = Inr (matrixOf logs)"
    using populate_matrixOf [OF assms, of "[]"] by (simp add: initMatrix_matrixOf)
  have rows: "concat (map (\<lambda>(dIdx, bucket).
        map (\<lambda>(tIdx, time). cellResult (matrixOf logs) dIdx bucket tIdx time)
          (enumerate 0 timeBuckets))
        (enumerate 0 doseBuckets))
      = map Inr (concat (map (\<lambda>(dIdx, bucket).
          map (\<lambda>(tIdx, time). cellOut (cellOf (label bucket) time logs) dIdx bucket tIdx)
            (enumerate 0 timeBuckets))
          (enumerate 0 doseBuckets)))"
    unfolding map_concat map_map
    by (intro arg_cong [where f = concat] map_cong refl)
      (auto simp: cellResult_matrixOf enumerate_snd_in)
  show ?thesis
    by (simp add: computeSweetSpotMatrix_def pop rows collect_Inr)
qed

lemma findBucket_below_999:
  assumes "mg < 999"
  shows "map_option label (findBucket mg)
      = (if 0 \<le> mg then Some (label (doseBuckets ! doseInterval mg)) else None)"
  using assms by (simp add: findBucket_def doseBuckets_def doseInterval_def)

lemma doseInterval_less: "doseInterval mg < 5"
  by (simp add: doseInterval_def)

lemma label_inj:
  assumes "i < 5" and "k < 5"
  shows "label (doseBuckets ! k) = label (doseBuckets ! i) \<longleftrightarrow> k = i"
proof -
  have d: "distinct (map label doseBuckets)" and n: "length doseBuckets = 5"
    by (simp_all add: doseBuckets_def)
  from assms n have "map label doseBuckets ! k = map label doseBuckets ! i \<longleftrightarrow> k = i"
    using d by (simp add: nth_eq_iff_index_eq del: nth_map)
  then show ?thesis
    using assms n by simp
qed

lemma timeBuckets_nonempty:
  assumes "j < 4"
  shows "timeBuckets ! j \<noteq> []"
proof -
  have "\<forall>t \<in> set timeBuckets. t \<noteq> []" and "length timeBuckets = 4"
    by (simp_all add: timeBuckets_def)
  then show ?thesis
    using assms by (metis nth_mem)
qed

lemma hitsCell_inCell:
  assumes "\<forall>mg. estimatedMg l = Some mg \<longrightarrow> mg < 999" and "i < 5" and "j < 4"
  shows "hitsCell (label (doseBuckets ! i)) (timeBuckets ! j) l \<longleftrightarrow> inCell i j l"
proof (cases "estimatedMg l")
  case None
  then show ?thesis
    by (simp add: hitsCell_def inCell_def qualifies_def truthy_num_def)
next
  case (Some mg)
  then have "mg < 999"
    using assms(1) by simp
  note fb = findBucket_below_999 [OF this]
  have lab: "label (doseBuckets ! doseInterval mg) = label (doseBuckets ! i) \<longleftrightarrow> doseInterval mg = i"
    using label_inj [OF assms(2) doseInterval_less] .
  show ?thesis
    using Some timeBuckets_nonempty [OF assms(3)]
    by (auto simp: hitsCell_def inCell_def qualifies_def truthy_num_def truthy_str_def fb lab)
qed

text \<open>
  The grid for doses below 999 mg. When every time of day that occurs is one of the four
  keys and every dose is below 999, the function returns a grid of 20 cells, and the cell
  of dose row \<open>i\<close> and time column \<open>j\<close> counts exactly the qualifying records whose
  dose lies in the \<open>i\<close>-th interval and whose time of day is the \<open>j\<close>-th; a populated
  cell reports the means of their levels and the clamped metric, an empty one reports
  zeros.
\<close>

lemma sweetSpot_cells_below_999:
  assumes wf: "\<forall>l \<in> set logs. truthy_str (timeOfDay l) \<longrightarrow> the (timeOfDay l) \<in> set timeBuckets"
    and small: "\<forall>l \<in> set logs. \<forall>mg. estimatedMg l = Some mg \<longrightarrow> mg < 999"
    and i: "i < 5" and j: "j < 4"
  shows "\<exists>r. computeSweetSpotMatrix logs = Inr r \<and> length (cells r) = 20
     \<and> (let c = cells r ! (4 * i + j);
             hit = filter (inCell i j) logs;
             avgF = sum_list (presentLevels (map focusLevel hit)) / real (length hit);
             avgA = sum_list (presentLevels (map anxietyLevel hit)) / real (length hit)
         in doseIdx c = i \<and> timeIdx c = j \<and> doseLabel c = label (doseBuckets ! i)
            \<and> timeLabel c = timeLabels ! j \<and> cellCount c = length hit
            \<and> (if hit = []
                then cellAvgFocus c = 0 \<and> cellAvgAnxiety c = 0 \<and> metric c = 0
                else cellAvgFocus c = avgF \<and> cellAvgAnxiety c = avgA
                  \<and> metric c = max 0 (min 100 (((avgF - avgA) + 9) / 18 * 100))))"
proof -
  let ?row = "\<lambda>(dIdx, bucket).
      map (\<lambda>(tIdx, time). cellOut (cellOf (label bucket) time logs) dIdx bucket tIdx)
        (enumerate 0 timeBuckets)"
  let ?cells = "concat (map ?row (enumerate 0 doseBuckets))"
  have len: "length doseBuckets = 5" "length timeBuckets = 4"
    by (simp_all add: doseBuckets_def timeBuckets_def)
  have w: "\<forall>y \<in> set (enumerate 0 doseBuckets). length (?row y) = 4"
    by (auto simp: len)
  have total: "length ?cells = 20"
    by (simp add: doseBuckets_def timeBuckets_def)
  have "?cells ! (4 * i + j) = ?row (enumerate 0 doseBuckets ! i) ! j"
    using w i j by (intro nth_concat_rows) (simp_all add: len)
  also have "\<dots> = cellOut (cellOf (label (doseBuckets ! i)) (timeBuckets ! j) logs)
      i (doseBuckets ! i) j"
    using i j by (simp add: nth_enumerate_eq len)
  finally have c: "?cells ! (4 * i + j)
      = cellOut (cellOf (label (doseBuckets ! i)) (timeBuckets ! j) logs) i (doseBuckets ! i) j" .
  have hit: "filter (hitsCell (label (doseBuckets ! i)) (timeBuckets ! j)) logs
      = filter (inCell i j) logs"
    using small hitsCell_inCell [OF _ i j] by (intro filter_cong refl) blast
  have out: "(let c = cellOut (cellOf (label (doseBuckets ! i)) (timeBuckets ! j) logs)
                i (doseBuckets ! i) j;
             hit = filter (inCell i j) logs;
             avgF = sum_list (presentLevels (map focusLevel hit)) / real (length hit);
             avgA = sum_list (presentLevels (map anxietyLevel hit)) / real (length hit)
         in doseIdx c = i \<and> timeIdx c = j \<and> doseLabel c = label (doseBuckets ! i)
            \<and> timeLabel c = timeLabels ! j \<and> cellCount c = length hit
            \<and> (if hit = []
                then cellAvgFocus c = 0 \<and> cellAvgAnxiety c = 0 \<and> metric c = 0
                else cellAvgFocus c = avgF \<and> cellAvgAnxiety c = avgA
                  \<and> metric c = max 0 (min 100 (((avgF - avgA) + 9) / 18 * 100))))"
  proof -
    have "length (presentLevels (map f (filter (inCell i j) logs)))
        = length (filter (inCell i j) logs)"
      if "f = focusLevel \<or> f = anxietyLevel" for f
      unfolding length_presentLevels
      using that by (intro arg_cong [where f = length] filter_True)
        (auto simp: inCell_def qualifies_def)
    then show ?thesis
      by (simp add: cellOut_def cellOf_def hit Let_def foldl_plus_sum_list)
  qed
  show ?thesis
    unfolding computeSweetSpotMatrix_cells [OF wf]
    using total c out by simp
qed

text \<open>
  Doses of 999 mg and more. No bucket matches such a dose, so the record leaves the
  working matrix as it is, and a list of such records gives the grid of the empty list.
\<close>

lemma addToMatrix_from_999:
  assumes "estimatedMg l = Some mg" and "999 \<le> mg"
  shows "addToMatrix m l = Inr m"
proof -
  have "findBucket mg = None"
    using assms(2) by (simp add: findBucket_def doseBuckets_def)
  then show ?thesis
    using assms(1) by (simp add: addToMatrix_def split: option.splits)
qed

lemma populate_from_999:
  assumes "\<forall>l \<in> set ls. \<exists>mg. estimatedMg l = Some mg \<and> 999 \<le> mg"
  shows "populate m ls = Inr m"
  using assms by (induction ls) (auto simp: addToMatrix_from_999)

lemma computeSweetSpotMatrix_from_999:
  assumes "\<forall>l \<in> set ls. \<exists>mg. estimatedMg l = Some mg \<and> 999 \<le> mg"
  shows "computeSweetSpotMatrix ls = computeSweetSpotMatrix []"
  by (simp add: computeSweetSpotMatrix_def populate_from_999 [OF assms])

text \<open>
  C1 on the code. A record with a dose of exactly 999 mg, a time of day and both levels
  qualifies, and its dose lies in [20,\<infinity>), the fifth interval; the claim counts it in
  the \<open>20+ mg\<close> row. The last bucket of the code is \<open>{min: 20, max: 999}\<close> and
  \<open>find\<close> tests \<open>estimatedMg < bucket.max\<close>, so no bucket matches, the callback
  returns, and every cell of the grid stays empty. The same record with 998 mg is counted
  in the \<open>20+ mg\<close> row, under \<open>morning\<close>.
\<close>

theorem sweetSpot_drops_dose_999:
  "map_sum id (map cellCount \<circ> cells)
     (computeSweetSpotMatrix [sampleLog ''a'' 0 1 (Some ''morning'') (Some 999) (Some 6) (Some 3)])
     = Inr (replicate 20 0)
   \<and> qualifies (sampleLog ''a'' 0 1 (Some ''morning'') (Some 999) (Some 6) (Some 3))
   \<and> doseInterval 999 = 4
   \<and> map_sum id (map cellCount \<circ> cells)
     (computeSweetSpotMatrix [sampleLog ''a'' 0 1 (Some ''morning'') (Some 998) (Some 6) (Some 3)])
     = Inr (replicate 16 0 @ [1, 0, 0, 0])"
  by (simp add: computeSweetSpotMatrix_def initMatrix_def doseBuckets_def timeBuckets_def
      timeLabels_def addToMatrix_def findBucket_def cellResult_def sampleLog_def truthy_num_def
      truthy_str_def enumerate_eq_zip upt_rec numeral_eq_Suc qualifies_def doseInterval_def)

text \<open>
  C2 on the code. A record with 1500 mg, \<open>evening\<close>, focus 8 and anxiety 2 has a
  positive dose, a time of day and both levels, so by the claim it contributes to the grid;
  the code computes the grid of the empty list. With 7 mg instead the record is the only
  one of the cell \<open>5-10 mg\<close> by \<open>evening\<close> (the seventh cell), with means 8 and 2
  and metric 250/3.
\<close>

theorem sweetSpot_ignores_dose_1500:
  "computeSweetSpotMatrix [sampleLog ''a'' 0 1 (Some ''evening'') (Some 1500) (Some 8) (Some 2)]
     = computeSweetSpotMatrix []
   \<and> qualifies (sampleLog ''a'' 0 1 (Some ''evening'') (Some 1500) (Some 8) (Some 2))
   \<and> map_sum id (map (\<lambda>c. (cellCount c, cellAvgFocus c, cellAvgAnxiety c, metric c)) \<circ> cells)
     (computeSweetSpotMatrix [sampleLog ''a'' 0 1 (Some ''evening'') (Some 7) (Some 8) (Some 2)])
     = Inr (replicate 6 (0, 0, 0, 0) @ [(1, 8, 2, 250 / 3)] @ replicate 13 (0, 0, 0, 0))"
  by (simp add: computeSweetSpotMatrix_def initMatrix_def doseBuckets_def timeBuckets_def
      timeLabels_def addToMatrix_def findBucket_def cellResult_def sampleLog_def truthy_num_def
      truthy_str_def enumerate_eq_zip upt_rec numeral_eq_Suc qualifies_def)

end
